theory Spec2Isabelle
  imports Main
begin

section \<open>Python values, errors and sequences\<close>

text \<open>
  The exceptions, by class. \<open>PyException\<close> is the bare \<^verbatim>\<open>Exception\<close> of
  \<^verbatim>\<open>GenomicArray.__init__\<close> and \<^verbatim>\<open>create_genomic_array\<close>. The libraries numpy and
  h5py raise exceptions of further classes; \<open>OtherError\<close> carries the name of a class
  that has no constructor of its own.
\<close>

datatype error =
  ValueError | IndexError | KeyError | TypeError | ZeroDivisionError | OSError | PyException
  | OverflowError | UnicodeEncodeError | OtherError string

text \<open>
  \<^verbatim>\<open>HTSeq.GenomicInterval\<close>: the four attributes the code reads. The fields carry the
  prefix \<open>iv_\<close> because \<open>end\<close> is a keyword and \<open>strand\<close> is also a column of the indexer.
  The class belongs to the library HTSeq; the checks of its constructor are not
  represented.
\<close>

record GenomicInterval =
  iv_chrom :: string
  iv_start :: int
  iv_end :: int
  iv_strand :: string

text \<open>A record of the region reader: the code only reads its attribute \<^verbatim>\<open>iv\<close>.\<close>

record feature =
  iv :: GenomicInterval

text \<open>
  The objects that reach \<^verbatim>\<open>__getitem__\<close> and \<^verbatim>\<open>__setitem__\<close> as keys. Python's
  \<^verbatim>\<open>bool\<close> is a subclass of \<^verbatim>\<open>int\<close>, so \<^verbatim>\<open>isinstance(True, int)\<close> holds.
\<close>

datatype pyobj =
  PyInt int
  | PyBool bool
  | PyStr string
  | PyNone
  | PyInterval GenomicInterval
  | PyTuple "pyobj list"

text \<open>\<^verbatim>\<open>isinstance(x, int)\<close>, with the integer value of \<open>x\<close> when it holds.\<close>

fun as_int :: "pyobj \<Rightarrow> int option" where
  "as_int (PyInt i) = Some i"
| "as_int (PyBool b) = Some (if b then 1 else 0)"
| "as_int _ = None"

text \<open>\<^verbatim>\<open>isinstance(x, GenomicInterval)\<close>.\<close>

fun as_interval :: "pyobj \<Rightarrow> GenomicInterval option" where
  "as_interval (PyInterval i) = Some i"
| "as_interval _ = None"

text \<open>
  \<^verbatim>\<open>obj[k]\<close> for a non-negative constant \<open>k\<close>: tuples and strings are subscriptable,
  the other objects raise \<^verbatim>\<open>TypeError\<close>.
\<close>

fun subscript :: "pyobj \<Rightarrow> nat \<Rightarrow> error + pyobj" where
  "subscript (PyTuple xs) k = (if k < length xs then Inr (xs ! k) else Inl IndexError)"
| "subscript (PyStr s) k = (if k < length s then Inr (PyStr [s ! k]) else Inl IndexError)"
| "subscript _ k = Inl TypeError"

text \<open>Sequencing of computations that may raise.\<close>

definition ebind :: "error + 'a \<Rightarrow> ('a \<Rightarrow> error + 'b) \<Rightarrow> error + 'b" where
  "ebind m f = (case m of Inl e \<Rightarrow> Inl e | Inr x \<Rightarrow> f x)"

text \<open>\<^verbatim>\<open>[x] * n\<close>: the empty list when \<open>n\<close> is negative.\<close>

definition py_repeat :: "'a \<Rightarrow> int \<Rightarrow> 'a list" where
  "py_repeat x n = replicate (nat n) x"

text \<open>\<^verbatim>\<open>range(n)\<close>: empty when \<open>n\<close> is not positive.\<close>

definition py_range :: "int \<Rightarrow> int list" where
  "py_range n = [0..n - 1]"

text \<open>\<^verbatim>\<open>xs[i]\<close> on a list: a negative index counts from the end.\<close>

definition py_getitem :: "'a list \<Rightarrow> int \<Rightarrow> error + 'a" where
  "py_getitem xs i =
     (let n = int (length xs); j = (if i < 0 then i + n else i)
      in if 0 \<le> j \<and> j < n then Inr (xs ! nat j) else Inl IndexError)"

section \<open>GenomicIndexer\<close>

text \<open>
  The object after \<^verbatim>\<open>create_from_file\<close>: the three validated attributes and the five
  columns, one row per bin.
\<close>

record GenomicIndexer =
  binsize :: int
  stepsize :: int
  flank :: int
  chrs :: "string list"
  offsets :: "int list"
  inregionidx :: "int list"
  strand :: "string list"
  rel_end :: "int list"

text \<open>
  \<^verbatim>\<open>__init__\<close> runs the three property setters in this order; each raises
  \<^verbatim>\<open>ValueError\<close>. The columns start empty, as the local lists of
  \<^verbatim>\<open>create_from_file\<close> do.
\<close>

definition GenomicIndexer_init :: "int \<Rightarrow> int \<Rightarrow> int \<Rightarrow> error + GenomicIndexer" where
  "GenomicIndexer_init bsz stp flk =
     (if bsz \<le> 0 then Inl ValueError
      else if stp \<le> 0 then Inl ValueError
      else if flk < 0 then Inl ValueError
      else Inr \<lparr>binsize = bsz, stepsize = stp, flank = flk, chrs = [], offsets = [],
                inregionidx = [], strand = [], rel_end = []\<rparr>)"

text \<open>The numerator \<^verbatim>\<open>val\<close> of the loop body (lines 65 to 68).\<close>

definition region_val :: "int \<Rightarrow> int \<Rightarrow> feature \<Rightarrow> int" where
  "region_val bsz stp reg =
     (if stp \<le> bsz then iv_end (iv reg) - iv_start (iv reg) - bsz + stp
      else iv_end (iv reg) - iv_start (iv reg))"

text \<open>One iteration of the loop over the regions (lines 64 to 82).\<close>

definition add_region :: "int \<Rightarrow> int \<Rightarrow> bool \<Rightarrow> GenomicIndexer \<Rightarrow> feature \<Rightarrow> GenomicIndexer" where
  "add_region bsz stp fixed_size_batches g reg =
     (let val = region_val bsz stp reg;
          reglen = val div stp;
          g1 = g\<lparr>chrs := chrs g @ py_repeat (iv_chrom (iv reg)) reglen,
                 offsets := offsets g @ py_repeat (iv_start (iv reg)) reglen,
                 rel_end := rel_end g @ py_repeat bsz reglen,
                 strand := strand g @ py_repeat (iv_strand (iv reg)) reglen,
                 inregionidx := inregionidx g @ py_range reglen\<rparr>
      in if \<not> fixed_size_batches \<and> val mod stp > 0
         then g1\<lparr>chrs := chrs g1 @ [iv_chrom (iv reg)],
                 offsets := offsets g1 @ [iv_start (iv reg)],
                 rel_end := rel_end g1 @ [val - (val div stp) * stp],
                 strand := strand g1 @ [iv_strand (iv reg)],
                 inregionidx := inregionidx g1 @ [reglen]\<rparr>
         else g1)"

text \<open>
  \<^verbatim>\<open>create_from_file\<close>. The region reader is not part of the module: its result, the
  sequence of regions, is the argument.
\<close>

definition create_from_file ::
  "feature list \<Rightarrow> int \<Rightarrow> int \<Rightarrow> int \<Rightarrow> bool \<Rightarrow> error + GenomicIndexer" where
  "create_from_file regions bsz stp flk fixed_size_batches =
     ebind (GenomicIndexer_init bsz stp flk)
       (\<lambda>gind. Inr (foldl (add_region bsz stp fixed_size_batches) gind regions))"

text \<open>\<^verbatim>\<open>__len__\<close>.\<close>

definition indexer_len :: "GenomicIndexer \<Rightarrow> nat" where
  "indexer_len g = length (chrs g)"

text \<open>\<^verbatim>\<open>__getitem__\<close>: the five columns are read in the order of the source.\<close>

definition indexer_getitem :: "GenomicIndexer \<Rightarrow> pyobj \<Rightarrow> error + GenomicInterval" where
  "indexer_getitem g index =
     (case as_int index of
        None \<Rightarrow> Inl IndexError
      | Some i \<Rightarrow>
          ebind (py_getitem (offsets g) i) (\<lambda>off.
          ebind (py_getitem (inregionidx g) i) (\<lambda>iri.
          ebind (py_getitem (rel_end g) i) (\<lambda>val.
          ebind (py_getitem (chrs g) i) (\<lambda>c.
          ebind (py_getitem (strand g) i) (\<lambda>s.
            let start = off + iri * stepsize g;
                stop = start + (if val > 0 then val else 1)
            in Inr \<lparr>iv_chrom = c, iv_start = start - flank g,
                     iv_end = stop + flank g, iv_strand = s\<rparr>))))))"

text \<open>
  The \<^verbatim>\<open>include\<close> and \<open>exclude\<close> arguments of \<^verbatim>\<open>idx_by_chrom\<close>: \<^verbatim>\<open>None\<close>, one name,
  or a collection of names.
\<close>

datatype chrom_filter = FNone | FStr string | FNames "string list"

text \<open>The names to iterate over, after the \<^verbatim>\<open>isinstance(_, str)\<close> wrapping.\<close>

fun filter_names :: "chrom_filter \<Rightarrow> string list" where
  "filter_names FNone = []"
| "filter_names (FStr s) = [s]"
| "filter_names (FNames xs) = xs"

text \<open>\<^verbatim>\<open>np.where(np.asarray(self.chrs) == name)[0]\<close>.\<close>

definition where_chrom :: "GenomicIndexer \<Rightarrow> string \<Rightarrow> nat list" where
  "where_chrom g name = filter (\<lambda>i. chrs g ! i = name) [0..<length (chrs g)]"

text \<open>
  \<^verbatim>\<open>idx_by_chrom\<close>. The source returns \<^verbatim>\<open>list(idxs)\<close> of a Python set, whose order is
  not determined: the result is the set.
\<close>

definition idx_by_chrom :: "GenomicIndexer \<Rightarrow> chrom_filter \<Rightarrow> chrom_filter \<Rightarrow> nat set" where
  "idx_by_chrom g incl excl =
     (let idxs = (if filter_names incl = [] then set [0..<indexer_len g]
                  else foldl (\<lambda>s inc. s \<union> set (where_chrom g inc)) {} (filter_names incl))
      in foldl (\<lambda>s exc. s - set (where_chrom g exc)) idxs (filter_names excl))"

section \<open>numpy arrays\<close>

text \<open>
  A three-axis array: axis 0 runs over the storage cells of a chromosome, axis 1 over the
  strands, axis 2 over the conditions. \<open>rows\<close> holds the cells of axis 0, each a list
  (axis 1) of lists (axis 2) of values; the sizes of axes 1 and 2 are kept beside it, so
  that an array without rows still has its shape. The element type \<open>'v\<close> stands for
  the values of the array's dtype.
\<close>

record 'v ndarray =
  axis1 :: nat
  axis2 :: nat
  rows :: "'v list list list"

text \<open>The shape invariant of an array: every row is \<open>axis1\<close> by \<open>axis2\<close>.\<close>

definition wf_ndarray :: "'v ndarray \<Rightarrow> bool" where
  "wf_ndarray a =
     list_all (\<lambda>r. length r = axis1 a \<and> list_all (\<lambda>x. length x = axis2 a) r) (rows a)"

text \<open>\<^verbatim>\<open>numpy.zeros((n, s, c))\<close>: a negative dimension raises \<^verbatim>\<open>ValueError\<close>.\<close>

definition zeros :: "int \<Rightarrow> nat \<Rightarrow> nat \<Rightarrow> error + ('v::zero) ndarray" where
  "zeros n s c =
     (if n < 0 then Inl ValueError
      else Inr \<lparr>axis1 = s, axis2 = c, rows = replicate (nat n) (replicate s (replicate c 0))\<rparr>)"

text \<open>
  An integer index \<open>i\<close> on an axis of size \<open>n\<close>: valid from \<open>-n\<close> to \<open>n - 1\<close>, a
  negative one counting from the end; \<^verbatim>\<open>IndexError\<close> otherwise.
\<close>

definition np_index :: "nat \<Rightarrow> int \<Rightarrow> error + nat" where
  "np_index n i =
     (if - int n \<le> i \<and> i < int n then Inr (nat (if i < 0 then i + int n else i))
      else Inl IndexError)"

text \<open>
  One bound of the slice \<^verbatim>\<open>start:stop\<close> on an axis of size \<open>n\<close>
  (\<^verbatim>\<open>slice.indices\<close> with step 1): a negative bound counts from the end, and the
  result is clipped to \<open>0 .. n\<close>. A slice never raises.
\<close>

definition slice_bound :: "nat \<Rightarrow> int \<Rightarrow> nat" where
  "slice_bound n i = (if i < 0 then nat (max 0 (i + int n)) else min (nat i) n)"

text \<open>\<^verbatim>\<open>xs[start:stop]\<close> on a list.\<close>

definition py_slice :: "'a list \<Rightarrow> int \<Rightarrow> int \<Rightarrow> 'a list" where
  "py_slice xs start stop =
     (let lo = slice_bound (length xs) start; hi = slice_bound (length xs) stop
      in take (hi - lo) (drop lo xs))"

text \<open>\<^verbatim>\<open>a[start:stop]\<close>: the selected rows, over all of axes 1 and 2.\<close>

definition ndarray_getslice :: "'v ndarray \<Rightarrow> int \<Rightarrow> int \<Rightarrow> 'v ndarray" where
  "ndarray_getslice a start stop = a\<lparr>rows := py_slice (rows a) start stop\<rparr>"

text \<open>
  The condition index as it reaches numpy: \<^verbatim>\<open>isinstance(x, int)\<close> holds for an integer
  and for a bool, and numpy takes a bool among the indices as a mask, not as the position
  0 or 1.
\<close>

datatype cond_index = CInt int | CBool bool

fun as_cond :: "pyobj \<Rightarrow> cond_index option" where
  "as_cond (PyInt i) = Some (CInt i)"
| "as_cond (PyBool b) = Some (CBool b)"
| "as_cond _ = None"

text \<open>
  What the libraries do with the value of an item assignment. The written value is any
  Python object, of the type \<open>'u\<close>; the arrays hold elements of the type \<open>'v\<close>.

  \<^item> \<open>prepare a k c value\<close> is numpy's conversion of \<open>value\<close> to the dtype of the array
    \<open>a\<close> and its broadcast to the selection of \<open>k\<close> rows under the condition index
    \<open>c\<close>: it raises (\<^verbatim>\<open>OverflowError\<close> for an integer the dtype cannot hold,
    \<^verbatim>\<open>ValueError\<close> for a string that is no number or for an array that cannot be
    broadcast), or gives the element for the \<open>j\<close>-th selected row and the condition
    position \<open>ci\<close>. A scalar gives its converted value for every \<open>j\<close> and \<open>ci\<close>.

  \<^item> \<open>h5_setitem writable d start stop s c value\<close> is the item assignment
    \<^verbatim>\<open>d[start:stop, s, c] = value\<close> of h5py on a dataset \<open>d\<close> of a file opened for
    writing or for reading. h5py has its own rules for selections and conversions, and it
    refuses to write to a file that was opened for reading.

  Both belong to the libraries, not to the module, and are parameters.
\<close>

record ('u, 'v) array_lib =
  prepare :: "'v ndarray \<Rightarrow> nat \<Rightarrow> cond_index \<Rightarrow> 'u \<Rightarrow> error + (nat \<Rightarrow> nat \<Rightarrow> 'v)"
  h5_setitem ::
    "bool \<Rightarrow> 'v ndarray \<Rightarrow> int \<Rightarrow> int \<Rightarrow> int \<Rightarrow> cond_index \<Rightarrow> 'u \<Rightarrow> error + 'v ndarray"

text \<open>
  The positions on the axis of the conditions, of size \<open>n\<close>, that a condition index
  selects: an integer selects one position and is checked against the axis; the mask
  \<^verbatim>\<open>True\<close> selects every position and the mask \<^verbatim>\<open>False\<close> none.
\<close>

fun cond_positions :: "nat \<Rightarrow> cond_index \<Rightarrow> error + nat list" where
  "cond_positions n (CInt c) = ebind (np_index n c) (\<lambda>ci. Inr [ci])"
| "cond_positions n (CBool b) = Inr (if b then [0..<n] else [])"

text \<open>The cells \<open>cs\<close> of one strand of one row are overwritten with the elements \<open>f\<close>.\<close>

definition assign_row :: "'v list \<Rightarrow> nat list \<Rightarrow> (nat \<Rightarrow> 'v) \<Rightarrow> 'v list" where
  "assign_row xs cs f = foldl (\<lambda>ys ci. ys[ci := f ci]) xs cs"

text \<open>
  \<^verbatim>\<open>a[start:stop, s, c] = value\<close> on a numpy array. The indices are checked first, in
  the order of the axes, also when the slice selects no row; then the value is converted
  and broadcast, also when nothing is selected; then the selected cells of the strand
  \<open>s\<close> of every selected row are overwritten.
\<close>

definition ndarray_setitem ::
  "('u, 'v) array_lib \<Rightarrow> 'v ndarray \<Rightarrow> int \<Rightarrow> int \<Rightarrow> int \<Rightarrow> cond_index \<Rightarrow> 'u
     \<Rightarrow> error + 'v ndarray" where
  "ndarray_setitem lib a start stop s c v =
     ebind (np_index (axis1 a) s) (\<lambda>si.
     ebind (cond_positions (axis2 a) c) (\<lambda>cs.
       let lo = slice_bound (length (rows a)) start;
           hi = slice_bound (length (rows a)) stop
       in ebind (prepare lib a (hi - lo) c v) (\<lambda>el.
            Inr (a\<lparr>rows := map (\<lambda>(k, r). if lo \<le> k \<and> k < hi
                                           then r[si := assign_row (r ! si) cs (el (k - lo))]
                                           else r)
                                  (enumerate 0 (rows a))\<rparr>))))"

section \<open>GenomicArray\<close>

text \<open>
  What a key of \<^verbatim>\<open>handle\<close> can hold. \<^verbatim>\<open>NPGenomicArray.__init__\<close> stores the condition
  labels and the two integers \<^verbatim>\<open>order\<close> and \<^verbatim>\<open>resolution\<close> in the same dictionary as
  the arrays (lines 265 to 267), so a chromosome of one of these three names ends up with
  a value that is no array.
\<close>

datatype 'v entry = Arr "'v ndarray" | Conds "string list" | Num int

text \<open>\<^verbatim>\<open>e[start:stop]\<close>: an integer is not subscriptable.\<close>

fun entry_getslice :: "'v entry \<Rightarrow> int \<Rightarrow> int \<Rightarrow> error + 'v entry" where
  "entry_getslice (Arr a) start stop = Inr (Arr (ndarray_getslice a start stop))"
| "entry_getslice (Conds l) start stop = Inr (Conds (py_slice l start stop))"
| "entry_getslice (Num n) start stop = Inl TypeError"

text \<open>
  \<^verbatim>\<open>e[start:stop, s, c] = value\<close> on a value of a dictionary: a list or an integer
  takes no tuple index.
\<close>

fun entry_setitem ::
  "('u, 'v) array_lib \<Rightarrow> 'v entry \<Rightarrow> int \<Rightarrow> int \<Rightarrow> int \<Rightarrow> cond_index \<Rightarrow> 'u
     \<Rightarrow> error + 'v entry" where
  "entry_setitem lib (Arr a) start stop s c v =
     ebind (ndarray_setitem lib a start stop s c v) (\<lambda>a'. Inr (Arr a'))"
| "entry_setitem lib (Conds l) start stop s c v = Inl TypeError"
| "entry_setitem lib (Num n) start stop s c v = Inl TypeError"

text \<open>The same assignment on a dataset of an h5py file, made by that library.\<close>

fun h5_entry_setitem ::
  "('u, 'v) array_lib \<Rightarrow> bool \<Rightarrow> 'v entry \<Rightarrow> int \<Rightarrow> int \<Rightarrow> int \<Rightarrow> cond_index \<Rightarrow> 'u
     \<Rightarrow> error + 'v entry" where
  "h5_entry_setitem lib writable (Arr a) start stop s c v =
     ebind (h5_setitem lib writable a start stop s c v) (\<lambda>a'. Inr (Arr a'))"
| "h5_entry_setitem lib writable (Conds l) start stop s c v = Inl TypeError"
| "h5_entry_setitem lib writable (Num n) start stop s c v = Inl TypeError"

text \<open>
  What the attribute \<^verbatim>\<open>handle\<close> is: a dictionary of numpy arrays (the class attribute of
  line 40, and line 257 and line 283 of \<^verbatim>\<open>NPGenomicArray\<close>), an h5py file opened for
  writing (line 173), or an h5py file opened for reading (line 191).
\<close>

datatype handle_kind = Dict | H5Write | H5Read

text \<open>
  The attributes of a \<^verbatim>\<open>GenomicArray\<close>. \<open>handle\<close> is the mapping from chromosome names
  to arrays, and \<open>backing\<close> tells what kind of object holds it.
\<close>

record 'v GenomicArray =
  stranded :: bool
  condition :: "string list"
  resolution :: int
  order :: int
  typecode :: string
  handle :: "string \<rightharpoonup> 'v entry"
  backing :: handle_kind

text \<open>
  \<^verbatim>\<open>GenomicArray.__init__\<close>. The setter of \<^verbatim>\<open>order\<close> runs first and raises
  \<^verbatim>\<open>ValueError\<close>; the two checks after it raise \<^verbatim>\<open>Exception\<close>; the setter of
  \<^verbatim>\<open>resolution\<close> raises \<^verbatim>\<open>ValueError\<close>. \<^verbatim>\<open>handle\<close> is the class attribute, an
  empty dictionary.
\<close>

definition GenomicArray_init ::
  "bool \<Rightarrow> string list option \<Rightarrow> string \<Rightarrow> int \<Rightarrow> int \<Rightarrow> error + 'v GenomicArray" where
  "GenomicArray_init strd conds tc res ord =
     (let conds1 = (case conds of None \<Rightarrow> [''sample''] | Some cs \<Rightarrow> cs)
      in if ord \<le> 0 then Inl ValueError
         else if ord < 1 then Inl PyException
         else if ord > 4 then Inl PyException
         else if res \<le> 0 then Inl ValueError
         else Inr \<lparr>stranded = strd, condition = conds1, resolution = res, order = ord,
                   typecode = tc, handle = Map.empty, backing = Dict\<rparr>)"

text \<open>
  \<^verbatim>\<open>__setitem__\<close>. The key is subscripted twice before its parts are tested; the
  division by the resolution comes before the lookup of the chromosome. The assignment
  itself is made by the library that holds the handle: numpy for a dictionary of arrays,
  h5py for a file. A file opened for reading is left as it is, whatever h5py answers.
\<close>

definition array_setitem ::
  "('u, 'v) array_lib \<Rightarrow> 'v GenomicArray \<Rightarrow> pyobj \<Rightarrow> 'u \<Rightarrow> error + 'v GenomicArray" where
  "array_setitem lib self index v =
     ebind (subscript index 0) (\<lambda>interval.
     ebind (subscript index 1) (\<lambda>cnd.
       case (as_interval interval, as_cond cnd) of
         (Some i, Some c) \<Rightarrow>
           if resolution self = 0 then Inl ZeroDivisionError
           else
             let start = iv_start i div resolution self;
                 stop = iv_end i div resolution self;
                 s = (if stranded self \<and> iv_strand i = ''-'' then 1 else 0)
             in (case handle self (iv_chrom i) of
                   None \<Rightarrow> Inl KeyError
                 | Some e \<Rightarrow>
                     (case backing self of
                        Dict \<Rightarrow>
                          ebind (entry_setitem lib e start stop s c v)
                            (\<lambda>e'. Inr (self\<lparr>handle := (handle self)(iv_chrom i \<mapsto> e')\<rparr>))
                      | H5Write \<Rightarrow>
                          ebind (h5_entry_setitem lib True e start stop s c v)
                            (\<lambda>e'. Inr (self\<lparr>handle := (handle self)(iv_chrom i \<mapsto> e')\<rparr>))
                      | H5Read \<Rightarrow>
                          ebind (h5_entry_setitem lib False e start stop s c v)
                            (\<lambda>e'. Inr self)))
       | _ \<Rightarrow> Inl IndexError))"

text \<open>\<^verbatim>\<open>__getitem__\<close>: the key is an interval alone; the rows come back whole.\<close>

definition array_getitem :: "'v GenomicArray \<Rightarrow> pyobj \<Rightarrow> error + 'v entry" where
  "array_getitem self index =
     (case as_interval index of
        None \<Rightarrow> Inl IndexError
      | Some i \<Rightarrow>
          if resolution self = 0 then Inl ZeroDivisionError
          else
            (case handle self (iv_chrom i) of
               None \<Rightarrow> Inl KeyError
             | Some e \<Rightarrow>
                 entry_getslice e (iv_start i div resolution self) (iv_end i div resolution self)))"

section \<open>Stores: the cache files and the two constructors\<close>

text \<open>
  A cache file, \<^verbatim>\<open>storage.h5\<close> or \<^verbatim>\<open>storage.npz\<close>: the arrays by name and the three
  metadata entries \<^verbatim>\<open>conditions\<close>, \<^verbatim>\<open>order\<close> and \<^verbatim>\<open>resolution\<close>. An entry that was
  never written is \<open>None\<close>, and reading it raises \<^verbatim>\<open>KeyError\<close>. In the archive of
  \<^verbatim>\<open>NPGenomicArray\<close> the metadata share the namespace of the arrays.
\<close>

record 'v storage_file =
  file_arrays :: "string \<rightharpoonup> 'v ndarray"
  file_conditions :: "string list option"
  file_order :: "int option"
  file_resolution :: "int option"

text \<open>
  The part of the world outside the store that the constructors touch: the directories
  and files of the cache. \<open>loader_calls\<close> counts the invocations of loader callbacks; it
  is there to state how often a constructor calls its loader. The file system does what
  it is asked: the model has no failure of the operating system when a directory or a
  file is created. The lines that the constructors print are not represented.
\<close>

record 'v world =
  dirs :: "string set"
  files :: "string \<rightharpoonup> 'v storage_file"
  loader_calls :: nat

text \<open>
  The keyword arguments the two constructors and the factory share. A loader receives the
  store and its arguments, and returns the store as it has left it, or raises.
\<close>

record ('v, 'a) array_args =
  a_chroms :: "(string \<times> int) list"
  a_stranded :: bool
  a_conditions :: "string list option"
  a_typecode :: string
  a_datatags :: "string list option"
  a_resolution :: int
  a_order :: int
  a_cache :: bool
  a_overwrite :: bool
  a_loader :: "('v GenomicArray \<Rightarrow> 'a \<Rightarrow> error + 'v GenomicArray) option"
  a_loader_args :: "'a option"

text \<open>
  What lies outside the module and can make a constructor raise.

  \<^item> \<open>output_data_location\<close> is \<^verbatim>\<open>janggu.utils._get_output_data_location\<close>, which derives
    the cache directory from the tags.

  \<^item> \<open>zeros_error n s c tc\<close> is the exception of \<^verbatim>\<open>numpy.zeros((n, s, c), dtype=tc)\<close>
    for a reason other than a negative dimension, such as a type code that numpy does not
    know.

  \<^item> \<open>create_dataset_error made name n s c tc\<close> is the exception of h5py's
    \<^verbatim>\<open>create_dataset(name, (n, s, c), dtype=tc, compression='gzip', data=...)\<close> on a
    file that holds the datasets \<open>made\<close>: h5py refuses some names, the empty name and
    \<^verbatim>\<open>'.'\<close> among them.

  \<^item> \<open>attrs_error cs ord res\<close> is the exception of the three assignments to
    \<^verbatim>\<open>self.handle.attrs\<close> (lines 181 to 183), of the labels \<open>cs\<close>, the order and
    the resolution, such as an integer beyond 64 bits, which h5py cannot store.

  \<^item> \<open>string_error x\<close> is the exception of \<^verbatim>\<open>numpy.string_(x)\<close>, which raises
    \<^verbatim>\<open>UnicodeEncodeError\<close> on a label with a character outside ASCII.

  \<^item> \<open>savez_error names\<close> is the exception of \<^verbatim>\<open>numpy.savez(path, **data)\<close> for the
    keys \<open>names\<close> of \<^verbatim>\<open>data\<close>: the key \<^verbatim>\<open>'file'\<close> collides with the first parameter of
    \<^verbatim>\<open>savez\<close> and raises \<^verbatim>\<open>TypeError\<close>.

  \<open>None\<close> means that the call goes through.
\<close>

record env =
  output_data_location :: "string list option \<Rightarrow> string"
  zeros_error :: "int \<Rightarrow> nat \<Rightarrow> nat \<Rightarrow> string \<Rightarrow> error option"
  create_dataset_error ::
    "string list \<Rightarrow> string \<Rightarrow> int \<Rightarrow> nat \<Rightarrow> nat \<Rightarrow> string \<Rightarrow> error option"
  attrs_error :: "string list \<Rightarrow> int \<Rightarrow> int \<Rightarrow> error option"
  string_error :: "string \<Rightarrow> error option"
  savez_error :: "string set \<Rightarrow> error option"

text \<open>
  \<^verbatim>\<open>datatags + ['stranded'] if datatags else ['stranded']\<close> when the store is stranded
  (lines 162 and 241): \<^verbatim>\<open>None\<close> and the empty list are both false.
\<close>

definition tag_stranded :: "bool \<Rightarrow> string list option \<Rightarrow> string list option" where
  "tag_stranded strd datatags =
     (if strd
      then (case datatags of
              None \<Rightarrow> Some [''stranded'']
            | Some ts \<Rightarrow> if ts = [] then Some [''stranded''] else Some (ts @ [''stranded'']))
      else datatags)"

text \<open>\<^verbatim>\<open>os.path.join(memmap_dir, filename)\<close> for a relative file name.\<close>

definition path_join :: "string \<Rightarrow> string \<Rightarrow> string" where
  "path_join d f = (if d = [] then f else if last d = CHR ''/'' then d @ f else d @ ''/'' @ f)"

text \<open>The three names the archive of \<^verbatim>\<open>NPGenomicArray\<close> uses for its metadata.\<close>

definition reserved :: "string set" where
  "reserved = {''conditions'', ''order'', ''resolution''}"

text \<open>
  The number of strands and the condition labels of a store under construction: the
  second and third component of the shape of lines 176 and 253 are
  \<^verbatim>\<open>2 if stranded else 1\<close> and \<^verbatim>\<open>len(self.condition)\<close>, and \<^verbatim>\<open>self.condition\<close> is
  \<^verbatim>\<open>['sample']\<close> when no conditions are given (line 49).
\<close>

definition strands :: "('v, 'a) array_args \<Rightarrow> nat" where
  "strands a = (if a_stranded a then 2 else 1)"

definition labels :: "('v, 'a) array_args \<Rightarrow> string list" where
  "labels a = (case a_conditions a of None \<Rightarrow> [''sample''] | Some cs \<Rightarrow> cs)"

text \<open>\<^verbatim>\<open>numpy.zeros((n, s, c), dtype=tc)\<close>.\<close>

definition np_zeros :: "env \<Rightarrow> int \<Rightarrow> nat \<Rightarrow> nat \<Rightarrow> string \<Rightarrow> error + ('v::zero) ndarray" where
  "np_zeros e n s c tc = (case zeros_error e n s c tc of Some x \<Rightarrow> Inl x | None \<Rightarrow> zeros n s c)"

text \<open>
  The loop of lines 175 to 179: for each chromosome the array of zeros of
  \<^verbatim>\<open>chroms[chrom] + 1\<close> rows is made and h5py creates the dataset of that name with
  it. \<open>chroms\<close> is the dictionary as the list of its items, so its names are distinct;
  \<open>made\<close> are the names of the datasets created so far.
\<close>

fun create_datasets ::
  "env \<Rightarrow> string list \<Rightarrow> (string \<times> int) list \<Rightarrow> nat \<Rightarrow> nat \<Rightarrow> string
     \<Rightarrow> (string \<rightharpoonup> ('v::zero) entry) \<Rightarrow> error + (string \<rightharpoonup> 'v entry)" where
  "create_datasets e made [] s c tc h = Inr h"
| "create_datasets e made ((chrom, n) # rest) s c tc h =
     ebind (np_zeros e (n + 1) s c tc) (\<lambda>z.
       case create_dataset_error e made chrom (n + 1) s c tc of
         Some x \<Rightarrow> Inl x
       | None \<Rightarrow> create_datasets e (made @ [chrom]) rest s c tc (h(chrom \<mapsto> Arr z)))"

text \<open>The dictionary comprehension of lines 253 to 256.\<close>

fun zeros_dict ::
  "env \<Rightarrow> (string \<times> int) list \<Rightarrow> nat \<Rightarrow> nat \<Rightarrow> string \<Rightarrow> (string \<rightharpoonup> ('v::zero) entry)
     \<Rightarrow> error + (string \<rightharpoonup> 'v entry)" where
  "zeros_dict e [] s c tc h = Inr h"
| "zeros_dict e ((chrom, n) # rest) s c tc h =
     ebind (np_zeros e (n + 1) s c tc) (\<lambda>z. zeros_dict e rest s c tc (h(chrom \<mapsto> Arr z)))"

text \<open>
  \<^verbatim>\<open>[numpy.string_(x) for x in self.condition]\<close> (lines 181 and 263): the labels as
  byte strings, unless one of them is refused.
\<close>

fun numpy_strings :: "env \<Rightarrow> string list \<Rightarrow> error + string list" where
  "numpy_strings e [] = Inr []"
| "numpy_strings e (x # xs) =
     (case string_error e x of
        Some err \<Rightarrow> Inl err
      | None \<Rightarrow> ebind (numpy_strings e xs) (\<lambda>ys. Inr (x # ys)))"

text \<open>
  \<^verbatim>\<open>if loader: loader(self, *loader_args)\<close>. Unpacking \<^verbatim>\<open>None\<close> raises \<^verbatim>\<open>TypeError\<close>
  before the call.
\<close>

definition call_loader ::
  "'v world \<Rightarrow> 'v GenomicArray \<Rightarrow> ('v GenomicArray \<Rightarrow> 'a \<Rightarrow> error + 'v GenomicArray) option
     \<Rightarrow> 'a option \<Rightarrow> 'v world \<times> (error + 'v GenomicArray)" where
  "call_loader w self ldr largs =
     (case ldr of
        None \<Rightarrow> (w, Inr self)
      | Some f \<Rightarrow>
          (case largs of
             None \<Rightarrow> (w, Inl TypeError)
           | Some x \<Rightarrow> (w\<lparr>loader_calls := Suc (loader_calls w)\<rparr>, f self x)))"

text \<open>The arrays among the values of a handle, as a file stores them.\<close>

definition arrays_of :: "(string \<rightharpoonup> 'v entry) \<Rightarrow> (string \<rightharpoonup> 'v ndarray)" where
  "arrays_of h = (\<lambda>k. case h k of Some (Arr a) \<Rightarrow> Some a | _ \<Rightarrow> None)"

text \<open>The handle over the arrays of a file.\<close>

definition handle_of :: "(string \<rightharpoonup> 'v ndarray) \<Rightarrow> (string \<rightharpoonup> 'v entry)" where
  "handle_of arrs = (\<lambda>k. map_option Arr (arrs k))"

text \<open>
  Lines 173 to 183 of \<^verbatim>\<open>HDF5GenomicArray.__init__\<close>: the file is created empty and
  becomes the handle, the datasets are created, and the three attributes are written from
  the store. The result is the store as the loader will receive it. When a step raises,
  the file stays as the last completed step of the model left it; of the three attributes
  the model writes all or none.
\<close>

definition hdf5_alloc ::
  "env \<Rightarrow> 'v world \<Rightarrow> string \<Rightarrow> ('v::zero) GenomicArray \<Rightarrow> ('v, 'a) array_args
     \<Rightarrow> 'v world \<times> (error + 'v GenomicArray)" where
  "hdf5_alloc e w path self a =
     (let f0 = \<lparr>file_arrays = Map.empty, file_conditions = None, file_order = None,
                file_resolution = None\<rparr>;
          w0 = w\<lparr>files := (files w)(path \<mapsto> f0)\<rparr>
      in case create_datasets e [] (a_chroms a) (if a_stranded a then 2 else 1)
                (length (condition self)) (typecode self) Map.empty of
           Inl x \<Rightarrow> (w0, Inl x)
         | Inr h \<Rightarrow>
             let fd = f0\<lparr>file_arrays := arrays_of h\<rparr>;
                 wd = w0\<lparr>files := (files w0)(path \<mapsto> fd)\<rparr>
             in (case numpy_strings e (condition self) of
                   Inl x \<Rightarrow> (wd, Inl x)
                 | Inr cs \<Rightarrow>
                     (case attrs_error e cs (order self) (resolution self) of
                        Some x \<Rightarrow> (wd, Inl x)
                      | None \<Rightarrow>
                          let f1 = \<lparr>file_arrays = arrays_of h, file_conditions = Some cs,
                                     file_order = Some (order self),
                                     file_resolution = Some (resolution self)\<rparr>
                          in (w0\<lparr>files := (files w0)(path \<mapsto> f1)\<rparr>,
                              Inr (self\<lparr>handle := h, backing := H5Write\<rparr>)))))"

text \<open>
  \<^verbatim>\<open>self.handle.close()\<close> (line 189): the datasets of the file are those of the handle
  as the loader has left them.
\<close>

definition hdf5_close :: "'v world \<Rightarrow> string \<Rightarrow> 'v GenomicArray \<Rightarrow> 'v world" where
  "hdf5_close w path self =
     (case files w path of
        None \<Rightarrow> w
      | Some f \<Rightarrow> w\<lparr>files := (files w)(path \<mapsto> f\<lparr>file_arrays := arrays_of (handle self)\<rparr>)\<rparr>)"

text \<open>
  The building branch of \<^verbatim>\<open>HDF5GenomicArray.__init__\<close> (lines 172 to 189): the
  allocation, the loader on the allocated store, the closing of the file.
\<close>

definition hdf5_build ::
  "env \<Rightarrow> 'v world \<Rightarrow> string \<Rightarrow> ('v::zero) GenomicArray \<Rightarrow> ('v, 'a) array_args
     \<Rightarrow> 'v world \<times> (error + 'v GenomicArray)" where
  "hdf5_build e w path self a =
     (case hdf5_alloc e w path self a of
        (w1, Inl x) \<Rightarrow> (w1, Inl x)
      | (w1, Inr st0) \<Rightarrow>
          (case call_loader w1 st0 (a_loader a) (a_loader_args a) of
             (w2, Inl x) \<Rightarrow> (w2, Inl x)
           | (w2, Inr self2) \<Rightarrow> (hdf5_close w2 path self2, Inr self2)))"

text \<open>
  The reload of lines 190 to 196: the file is opened for reading and becomes the handle,
  and the three attributes of the store are set from the file, \<^verbatim>\<open>order\<close> and
  \<^verbatim>\<open>resolution\<close> through their setters.
\<close>

definition hdf5_reload ::
  "'v world \<Rightarrow> string \<Rightarrow> 'v GenomicArray \<Rightarrow> error + 'v GenomicArray" where
  "hdf5_reload w path self =
     (case files w path of
        None \<Rightarrow> Inl OSError
      | Some f \<Rightarrow>
          (case file_conditions f of
             None \<Rightarrow> Inl KeyError
           | Some cs \<Rightarrow>
               (case file_order f of
                  None \<Rightarrow> Inl KeyError
                | Some ord \<Rightarrow>
                    if ord \<le> 0 then Inl ValueError
                    else
                      (case file_resolution f of
                         None \<Rightarrow> Inl KeyError
                       | Some res \<Rightarrow>
                           if res \<le> 0 then Inl ValueError
                           else Inr (self\<lparr>handle := handle_of (file_arrays f),
                                          backing := H5Read, condition := cs,
                                          order := ord, resolution := res\<rparr>)))))"

text \<open>\<^verbatim>\<open>HDF5GenomicArray.__init__\<close>.\<close>

definition HDF5GenomicArray ::
  "env \<Rightarrow> 'v world \<Rightarrow> ('v::zero, 'a) array_args \<Rightarrow> 'v world \<times> (error + 'v GenomicArray)" where
  "HDF5GenomicArray e w a =
     (case GenomicArray_init (a_stranded a) (a_conditions a) (a_typecode a)
             (a_resolution a) (a_order a) of
        Inl x \<Rightarrow> (w, Inl x)
      | Inr self \<Rightarrow>
          if \<not> a_cache a then (w, Inl ValueError)
          else
            let memmap_dir = output_data_location e (tag_stranded (a_stranded a) (a_datatags a));
                path = path_join memmap_dir ''storage.h5'';
                w1 = w\<lparr>dirs := insert memmap_dir (dirs w)\<rparr>
            in (case (if files w1 path = None \<or> a_overwrite a then hdf5_build e w1 path self a
                      else (w1, Inr self)) of
                  (w2, Inl x) \<Rightarrow> (w2, Inl x)
                | (w2, Inr self2) \<Rightarrow> (w2, hdf5_reload w2 path self2)))"

text \<open>
  Lines 253 to 257 of \<^verbatim>\<open>NPGenomicArray.__init__\<close>: the dictionary of arrays of zeros
  becomes the handle. The result is the store as the loader will receive it.
\<close>

definition np_alloc ::
  "env \<Rightarrow> ('v::zero) GenomicArray \<Rightarrow> ('v, 'a) array_args \<Rightarrow> error + 'v GenomicArray" where
  "np_alloc e self a =
     ebind (zeros_dict e (a_chroms a) (if a_stranded a then 2 else 1)
              (length (condition self)) (typecode self) Map.empty)
       (\<lambda>d0. Inr (self\<lparr>handle := d0, backing := Dict\<rparr>))"

text \<open>
  Lines 263 to 271, after the loader. \<^verbatim>\<open>data\<close> and the handle of the store are one
  dictionary; \<^verbatim>\<open>names\<close> is taken before the three metadata entries are put into
  \<^verbatim>\<open>data\<close>; with the cache on, \<^verbatim>\<open>data\<close> is saved under its keys. The result is the
  store, \<^verbatim>\<open>data\<close> restricted to \<^verbatim>\<open>names\<close> (the handle of line 283 when nothing is
  reloaded) and the local \<^verbatim>\<open>condition\<close>.
\<close>

definition np_save ::
  "env \<Rightarrow> 'v world \<Rightarrow> string \<Rightarrow> 'v GenomicArray \<Rightarrow> ('v, 'a) array_args
     \<Rightarrow> 'v world \<times> (error + 'v GenomicArray \<times> (string \<rightharpoonup> 'v entry) \<times> string list)" where
  "np_save e w path self2 a =
     (case numpy_strings e (condition self2) of
        Inl x \<Rightarrow> (w, Inl x)
      | Inr cnd \<Rightarrow>
          let names = dom (handle self2);
              d1 = (handle self2)
                     (''conditions'' \<mapsto> Conds cnd,
                      ''order'' \<mapsto> Num (a_order a),
                      ''resolution'' \<mapsto> Num (a_resolution a));
              f = \<lparr>file_arrays = arrays_of d1,
                   file_conditions = Some cnd,
                   file_order = Some (a_order a),
                   file_resolution = Some (a_resolution a)\<rparr>
          in if a_cache a
             then (case savez_error e (dom d1) of
                     Some x \<Rightarrow> (w, Inl x)
                   | None \<Rightarrow> (w\<lparr>files := (files w)(path \<mapsto> f)\<rparr>, Inr (self2, d1 |` names, cnd)))
             else (w, Inr (self2, d1 |` names, cnd)))"

text \<open>
  The outcome of the loader, carried on through lines 263 to 271: an exception of the
  loader leaves the constructor.
\<close>

definition np_saved ::
  "env \<Rightarrow> string \<Rightarrow> ('v, 'a) array_args \<Rightarrow> 'v world \<times> (error + 'v GenomicArray)
     \<Rightarrow> 'v world \<times> (error + 'v GenomicArray \<times> (string \<rightharpoonup> 'v entry) \<times> string list)" where
  "np_saved e path a r =
     (case r of
        (w2, Inl x) \<Rightarrow> (w2, Inl x)
      | (w2, Inr self2) \<Rightarrow> np_save e w2 path self2 a)"

text \<open>
  The building branch of \<^verbatim>\<open>NPGenomicArray.__init__\<close> (lines 252 to 271): the
  allocation, the loader on the allocated store, the saving.
\<close>

definition np_build ::
  "env \<Rightarrow> 'v world \<Rightarrow> string \<Rightarrow> ('v::zero) GenomicArray \<Rightarrow> ('v, 'a) array_args
     \<Rightarrow> 'v world \<times> (error + 'v GenomicArray \<times> (string \<rightharpoonup> 'v entry) \<times> string list)" where
  "np_build e w path self a =
     (case np_alloc e self a of
        Inl x \<Rightarrow> (w, Inl x)
      | Inr st0 \<Rightarrow> np_saved e path a (call_loader w st0 (a_loader a) (a_loader_args a)))"

text \<open>
  The reload of lines 274 to 279: the names of the arrays are the entries of the archive
  other than the three metadata entries.
\<close>

definition np_reload ::
  "'v world \<Rightarrow> string \<Rightarrow> error + (string \<rightharpoonup> 'v entry) \<times> string list \<times> int \<times> int" where
  "np_reload w path =
     (case files w path of
        None \<Rightarrow> Inl OSError
      | Some f \<Rightarrow>
          (case file_conditions f of
             None \<Rightarrow> Inl KeyError
           | Some cs \<Rightarrow>
               (case file_order f of
                  None \<Rightarrow> Inl KeyError
                | Some ord \<Rightarrow>
                    (case file_resolution f of
                       None \<Rightarrow> Inl KeyError
                     | Some res \<Rightarrow>
                         Inr (handle_of (file_arrays f) |` (- reserved), cs, ord, res)))))"

text \<open>
  Lines 283 to 287: the handle, a dictionary, and the three attributes are set,
  \<^verbatim>\<open>resolution\<close> and \<^verbatim>\<open>order\<close> through their setters, in this order.
\<close>

definition np_finish ::
  "'v GenomicArray \<Rightarrow> (string \<rightharpoonup> 'v entry) \<Rightarrow> string list \<Rightarrow> int \<Rightarrow> int
     \<Rightarrow> error + 'v GenomicArray" where
  "np_finish self h cnd ord res =
     (if res \<le> 0 then Inl ValueError
      else if ord \<le> 0 then Inl ValueError
      else Inr (self\<lparr>handle := h, backing := Dict, condition := cnd, resolution := res,
                     order := ord\<rparr>))"

text \<open>
  Lines 273 to 287 on the outcome of the building branch: with the cache on, the handle
  and the attributes come from the archive.
\<close>

definition np_conclude ::
  "string \<Rightarrow> ('v, 'a) array_args
     \<Rightarrow> 'v world \<times> (error + 'v GenomicArray \<times> (string \<rightharpoonup> 'v entry) \<times> string list)
     \<Rightarrow> 'v world \<times> (error + 'v GenomicArray)" where
  "np_conclude path a r =
     (case r of
        (w4, Inl x) \<Rightarrow> (w4, Inl x)
      | (w4, Inr (self3, h, cnd)) \<Rightarrow>
          (w4,
           if a_cache a
           then ebind (np_reload w4 path)
                  (\<lambda>(h2, cnd2, ord2, res2). np_finish self3 h2 cnd2 ord2 res2)
           else np_finish self3 h cnd (a_order a) (a_resolution a)))"

text \<open>
  \<^verbatim>\<open>NPGenomicArray.__init__\<close>. Without a build the cache is on, so the handle and the
  attributes come from the archive.
\<close>

definition NPGenomicArray ::
  "env \<Rightarrow> 'v world \<Rightarrow> ('v::zero, 'a) array_args \<Rightarrow> 'v world \<times> (error + 'v GenomicArray)" where
  "NPGenomicArray e w a =
     (case GenomicArray_init (a_stranded a) (a_conditions a) (a_typecode a)
             (a_resolution a) (a_order a) of
        Inl x \<Rightarrow> (w, Inl x)
      | Inr self \<Rightarrow>
          let memmap_dir = output_data_location e (tag_stranded (a_stranded a) (a_datatags a));
              path = path_join memmap_dir ''storage.npz'';
              w1 = (if a_cache a then w\<lparr>dirs := insert memmap_dir (dirs w)\<rparr> else w)
          in np_conclude path a
               (if (a_cache a \<and> files w1 path = None) \<or> a_overwrite a \<or> \<not> a_cache a
                then np_build e w1 path self a
                else (w1, Inr (self, Map.empty, []))))"

text \<open>\<^verbatim>\<open>create_genomic_array\<close>: the factory.\<close>

definition create_genomic_array ::
  "env \<Rightarrow> 'v world \<Rightarrow> string \<Rightarrow> ('v::zero, 'a) array_args
     \<Rightarrow> 'v world \<times> (error + 'v GenomicArray)" where
  "create_genomic_array e w storage a =
     (if storage = ''hdf5'' then HDF5GenomicArray e w a
      else if storage = ''ndarray'' then NPGenomicArray e w a
      else (w, Inl PyException))"

section \<open>Notions used to state the properties\<close>

text \<open>The five columns of an indexer have one length.\<close>

definition columns_aligned :: "GenomicIndexer \<Rightarrow> bool" where
  "columns_aligned g \<longleftrightarrow>
     length (offsets g) = length (chrs g) \<and> length (inregionidx g) = length (chrs g) \<and>
     length (strand g) = length (chrs g) \<and> length (rel_end g) = length (chrs g)"

text \<open>
  The count \<open>n\<close> of full bins of a region of length \<open>L\<close>, in the words of the
  specification (section 4.1).
\<close>

definition spec_full_bins :: "int \<Rightarrow> int \<Rightarrow> int \<Rightarrow> int" where
  "spec_full_bins bsz stp L = (if stp \<le> bsz then (L - bsz + stp) div stp else L div stp)"

text \<open>
  The condition of the specification for a trailing partial bin: variable batch sizes and
  a remainder of the region length modulo the step.
\<close>

definition spec_trailing :: "int \<Rightarrow> bool \<Rightarrow> int \<Rightarrow> bool" where
  "spec_trailing stp fixed_size_batches L \<longleftrightarrow> \<not> fixed_size_batches \<and> 0 < L mod stp"

text \<open>
  The total bin count in the words of the specification: the sum over the regions of
  \<open>n\<close>, plus one for each region with a trailing bin.
\<close>

definition spec_length :: "feature list \<Rightarrow> int \<Rightarrow> int \<Rightarrow> bool \<Rightarrow> int" where
  "spec_length regions bsz stp fixed_size_batches =
     (\<Sum>r\<leftarrow>regions. spec_full_bins bsz stp (iv_end (iv r) - iv_start (iv r))
        + (if spec_trailing stp fixed_size_batches (iv_end (iv r) - iv_start (iv r))
           then 1 else 0))"

text \<open>
  The number of rows the specification gives to the array of a chromosome:
  \<open>ceil(chrom_length / resolution) + 1\<close>.
\<close>

definition spec_rows :: "int \<Rightarrow> int \<Rightarrow> int" where
  "spec_rows chrom_length res = - ((- chrom_length) div res) + 1"

text \<open>\<^verbatim>\<open>a.shape\<close>.\<close>

definition shape :: "'v ndarray \<Rightarrow> nat \<times> nat \<times> nat" where
  "shape a = (length (rows a), axis1 a, axis2 a)"

text \<open>The array of zeros of a valid shape, the value of \<^verbatim>\<open>numpy.zeros\<close>.\<close>

definition zarr :: "int \<Rightarrow> nat \<Rightarrow> nat \<Rightarrow> ('v::zero) ndarray" where
  "zarr n s c = \<lparr>axis1 = s, axis2 = c, rows = replicate (nat n) (replicate s (replicate c 0))\<rparr>"

text \<open>
  The shape of the array that the store of a constructor's result holds for a chromosome;
  \<open>None\<close> when the constructor raised or the store holds no array under that name.
\<close>

definition result_shape ::
  "'v world \<times> (error + 'v GenomicArray) \<Rightarrow> string \<Rightarrow> (nat \<times> nat \<times> nat) option" where
  "result_shape r chrom =
     (case snd r of
        Inl e \<Rightarrow> None
      | Inr st \<Rightarrow> (case handle st chrom of Some (Arr a) \<Rightarrow> Some (shape a) | _ \<Rightarrow> None))"

text \<open>
  The cache directory of a constructor call and a file in it (lines 162 to 167 and 241
  to 246).
\<close>

definition cache_dir :: "env \<Rightarrow> ('v, 'a) array_args \<Rightarrow> string" where
  "cache_dir e a = output_data_location e (tag_stranded (a_stranded a) (a_datatags a))"

definition cache_file :: "env \<Rightarrow> ('v, 'a) array_args \<Rightarrow> string \<Rightarrow> string" where
  "cache_file e a filename = path_join (cache_dir e a) filename"

text \<open>
  The store as a constructor has it when the loader is called: its attributes are the
  arguments of the constructor, and its handle holds the names of the chromosomes and no
  other.
\<close>

definition fresh_store :: "('v, 'a) array_args \<Rightarrow> 'v GenomicArray \<Rightarrow> bool" where
  "fresh_store a st \<longleftrightarrow>
     stranded st = a_stranded a \<and> condition st = labels a \<and>
     resolution st = a_resolution a \<and> order st = a_order a \<and> typecode st = a_typecode a \<and>
     dom (handle st) = fst ` set (a_chroms a)"

text \<open>
  The cells of an array that the slice \<open>start div resolution : end div resolution\<close> of
  \<^verbatim>\<open>__setitem__\<close> and \<^verbatim>\<open>__getitem__\<close> selects for an interval: those from
  \<open>first_cell\<close> up to, and without, \<open>end_cell\<close>.
\<close>

definition first_cell :: "'v GenomicArray \<Rightarrow> GenomicInterval \<Rightarrow> 'v ndarray \<Rightarrow> nat" where
  "first_cell st i a = slice_bound (length (rows a)) (iv_start i div resolution st)"

definition end_cell :: "'v GenomicArray \<Rightarrow> GenomicInterval \<Rightarrow> 'v ndarray \<Rightarrow> nat" where
  "end_cell st i a = slice_bound (length (rows a)) (iv_end i div resolution st)"

text \<open>The strand axis of a write: \<^verbatim>\<open>1 if self.stranded and strand == '-' else 0\<close>.\<close>

definition strand_axis :: "'v GenomicArray \<Rightarrow> GenomicInterval \<Rightarrow> nat" where
  "strand_axis st i = (if stranded st \<and> iv_strand i = ''-'' then 1 else 0)"

text \<open>
  A write followed by two reads of the store it leaves: one with the key of the write,
  the interval with the condition index, and one with the interval alone. \<open>None\<close> when
  the write raised.
\<close>

definition write_then_read ::
  "('u, 'v) array_lib \<Rightarrow> 'v GenomicArray \<Rightarrow> GenomicInterval \<Rightarrow> int \<Rightarrow> 'u
     \<Rightarrow> ((error + 'v entry) \<times> (error + 'v entry)) option" where
  "write_then_read lib st i c v =
     (case array_setitem lib st (PyTuple [PyInterval i, PyInt c]) v of
        Inl e \<Rightarrow> None
      | Inr st' \<Rightarrow>
          Some (array_getitem st' (PyTuple [PyInterval i, PyInt c]),
                array_getitem st' (PyInterval i)))"

text \<open>
  The assignment of a write is numpy's: the handle of the store is a dictionary of numpy
  arrays, or it is an h5py file opened for writing and h5py gives the assignment to the
  dataset \<open>a\<close> the outcome that numpy gives the same assignment to an array.
\<close>

definition assigns_as_numpy ::
  "('u, 'v) array_lib \<Rightarrow> 'v GenomicArray \<Rightarrow> GenomicInterval \<Rightarrow> int \<Rightarrow> 'u \<Rightarrow> 'v ndarray \<Rightarrow> bool" where
  "assigns_as_numpy lib st i c v a \<longleftrightarrow>
     backing st = Dict \<or>
     (backing st = H5Write \<and>
      h5_setitem lib True a (iv_start i div resolution st) (iv_end i div resolution st)
          (if stranded st \<and> iv_strand i = ''-'' then 1 else 0) (CInt c) v
        = ndarray_setitem lib a (iv_start i div resolution st) (iv_end i div resolution st)
            (if stranded st \<and> iv_strand i = ''-'' then 1 else 0) (CInt c) v)"

text \<open>
  The libraries of the examples, for arrays of the dtype \<^verbatim>\<open>int\<close> (64 bits) that are
  written with Python integers. numpy stores an integer of the 64-bit range as it is, in
  every selected cell, and raises \<^verbatim>\<open>OverflowError\<close> for any other integer. In this
  instance h5py assigns to a dataset of a file opened for writing as numpy assigns to an
  array, and raises \<^verbatim>\<open>OSError\<close> on a file opened for reading.
\<close>

definition int64_prepare ::
  "int ndarray \<Rightarrow> nat \<Rightarrow> cond_index \<Rightarrow> int \<Rightarrow> error + (nat \<Rightarrow> nat \<Rightarrow> int)" where
  "int64_prepare a k c v =
     (if - 9223372036854775808 \<le> v \<and> v < 9223372036854775808
      then Inr (\<lambda>j ci. v) else Inl OverflowError)"

definition int64_lib :: "(int, int) array_lib" where
  "int64_lib =
     \<lparr>prepare = int64_prepare,
      h5_setitem = (\<lambda>writable d start stop s c v.
         if writable
         then ndarray_setitem
                \<lparr>prepare = int64_prepare,
                 h5_setitem = (\<lambda>writable d start stop s c v. Inl OSError)\<rparr>
                d start stop s c v
         else Inl OSError)\<rparr>"

text \<open>
  An environment in which the libraries refuse nothing, with the directory \<^verbatim>\<open>cache\<close>
  for every store. The examples that use it as it is give the libraries the name
  \<^verbatim>\<open>chr1\<close>, the labels \<^verbatim>\<open>sample\<close>, \<^verbatim>\<open>a\<close> and \<^verbatim>\<open>b\<close>, and the type codes
  \<^verbatim>\<open>d\<close> and \<^verbatim>\<open>int\<close>, which numpy and h5py accept.
\<close>

definition accepting_env :: env where
  "accepting_env =
     \<lparr>output_data_location = (\<lambda>tags. ''cache''),
      zeros_error = (\<lambda>n s c tc. None),
      create_dataset_error = (\<lambda>made name n s c tc. None),
      attrs_error = (\<lambda>cs ord res. None),
      string_error = (\<lambda>x. None),
      savez_error = (\<lambda>names. None)\<rparr>"

section \<open>The indexer: bin counts\<close>

lemma length_py_range: "length (py_range n) = nat n"
  by (simp add: py_range_def)

lemma region_val_div: "region_val bsz stp r div stp =
    spec_full_bins bsz stp (iv_end (iv r) - iv_start (iv r))"
  by (simp add: region_val_def spec_full_bins_def)

lemma len_add_region:
  "length (chrs (add_region bsz stp fx g r)) =
     length (chrs g) + nat (region_val bsz stp r div stp)
       + (if \<not> fx \<and> 0 < region_val bsz stp r mod stp then 1 else 0)"
  by (simp add: add_region_def Let_def py_repeat_def)

lemma len_foldl_add_region:
  "length (chrs (foldl (add_region bsz stp fx) g rs)) =
     length (chrs g) +
     (\<Sum>r\<leftarrow>rs. nat (region_val bsz stp r div stp)
        + (if \<not> fx \<and> 0 < region_val bsz stp r mod stp then 1 else 0))"
  by (induction rs arbitrary: g) (simp_all add: len_add_region)

lemma int_sum_list: "int (sum_list (map f xs)) = sum_list (map (\<lambda>x. int (f x)) xs)"
  by (induction xs) simp_all

lemma region_val_len:
  "bsz \<le> stp \<Longrightarrow> region_val bsz stp r = iv_end (iv r) - iv_start (iv r)"
  by (simp add: region_val_def)

lemma region_rows_count:
  assumes "0 < stp"
    and "fx \<or> (bsz \<le> stp \<and> iv_start (iv r) \<le> iv_end (iv r))"
  shows "int (nat (region_val bsz stp r div stp)
            + (if \<not> fx \<and> 0 < region_val bsz stp r mod stp then 1 else 0)) =
         max 0 (spec_full_bins bsz stp (iv_end (iv r) - iv_start (iv r)))
           + (if spec_trailing stp fx (iv_end (iv r) - iv_start (iv r)) then 1 else 0)"
proof (cases fx)
  case True
  then show ?thesis by (simp add: spec_trailing_def region_val_div)
next
  case False
  with assms(2) have le: "bsz \<le> stp" by simp
  show ?thesis
    using False le assms
    by (auto simp: spec_trailing_def spec_full_bins_def region_val_def)
qed

text \<open>
  Claim C1, amended. For positive \<open>binsize\<close> and \<open>stepsize\<close> (and a flank that is not
  negative) the indexer is built. When \<open>fixed_size_batches\<close> is true, or when the step is
  at least the bin size and no region ends before it starts, its length is the sum over
  the regions of the count \<open>n\<close> of the specification taken at least zero, plus one for
  each region when \<open>fixed_size_batches\<close> is false and the region length leaves a remainder
  modulo the step. A region too short for one bin has a negative \<open>n\<close> and adds no bin.
  The rows that the loop appends with variable batch sizes and a step below the bin size
  are the subject of claim C2 and are left out here.
\<close>

theorem indexer_len_sum:
  assumes "0 < bsz" and "0 < stp" and "0 \<le> flk"
    and "fixed_size_batches \<or>
         (bsz \<le> stp \<and> (\<forall>r \<in> set regions. iv_start (iv r) \<le> iv_end (iv r)))"
  shows "\<exists>g. create_from_file regions bsz stp flk fixed_size_batches = Inr g \<and>
     int (indexer_len g) =
       (\<Sum>r\<leftarrow>regions. max 0 (spec_full_bins bsz stp (iv_end (iv r) - iv_start (iv r)))
          + (if spec_trailing stp fixed_size_batches (iv_end (iv r) - iv_start (iv r))
             then 1 else 0))"
proof -
  have each: "int (nat (region_val bsz stp r div stp)
            + (if \<not> fixed_size_batches \<and> 0 < region_val bsz stp r mod stp then 1 else 0)) =
         max 0 (spec_full_bins bsz stp (iv_end (iv r) - iv_start (iv r)))
           + (if spec_trailing stp fixed_size_batches (iv_end (iv r) - iv_start (iv r))
              then 1 else 0)"
    if "r \<in> set regions" for r
    using that assms(4) by (intro region_rows_count[OF assms(2)]) blast
  let ?g0 = "\<lparr>binsize = bsz, stepsize = stp, flank = flk, chrs = [], offsets = [],
      inregionidx = [], strand = [], rel_end = []\<rparr>"
  let ?g = "foldl (add_region bsz stp fixed_size_batches) ?g0 regions"
  have built: "create_from_file regions bsz stp flk fixed_size_batches = Inr ?g"
    using assms(1,2,3) by (simp add: create_from_file_def GenomicIndexer_init_def ebind_def)
  have "int (indexer_len ?g) =
      int (\<Sum>r\<leftarrow>regions. nat (region_val bsz stp r div stp)
            + (if \<not> fixed_size_batches \<and> 0 < region_val bsz stp r mod stp then 1 else 0))"
    by (simp add: indexer_len_def len_foldl_add_region)
  also have "\<dots> =
      (\<Sum>r\<leftarrow>regions. int (nat (region_val bsz stp r div stp)
            + (if \<not> fixed_size_batches \<and> 0 < region_val bsz stp r mod stp then 1 else 0)))"
    by (rule int_sum_list)
  also have "\<dots> =
      (\<Sum>r\<leftarrow>regions. max 0 (spec_full_bins bsz stp (iv_end (iv r) - iv_start (iv r)))
          + (if spec_trailing stp fixed_size_batches (iv_end (iv r) - iv_start (iv r))
             then 1 else 0))"
    by (rule arg_cong[where f = sum_list], rule map_cong[OF refl], rule each)
  finally show ?thesis using built by blast
qed

text \<open>
  The theorem at two inputs. With fixed batch sizes, bins of 10 and steps of 1, the
  region \<open>chr1:0-2\<close> is too short for a bin and the region \<open>chr1:0-12\<close> has three: the
  length is 3. With variable batch sizes, bins of 3 and steps of 4, the region
  \<open>chr1:0-10\<close> has two full bins and a trailing one: the length is 3.
\<close>

theorem indexer_len_sum_witness:
  "(0::int) < 10 \<and> (0::int) < 1 \<and> (0::int) \<le> 0 \<and>
   (\<exists>g. create_from_file
          [\<lparr>iv = \<lparr>iv_chrom = ''chr1'', iv_start = 0, iv_end = 2, iv_strand = ''+''\<rparr>\<rparr>,
           \<lparr>iv = \<lparr>iv_chrom = ''chr1'', iv_start = 0, iv_end = 12, iv_strand = ''+''\<rparr>\<rparr>]
          10 1 0 True = Inr g \<and> int (indexer_len g) = 3) \<and>
   (3::int) \<le> 4 \<and>
   (\<exists>g. create_from_file
          [\<lparr>iv = \<lparr>iv_chrom = ''chr1'', iv_start = 0, iv_end = 10, iv_strand = ''+''\<rparr>\<rparr>]
          3 4 0 False = Inr g \<and> int (indexer_len g) = 3)"
  using indexer_len_sum [of 10 1 0 True
      "[\<lparr>iv = \<lparr>iv_chrom = ''chr1'', iv_start = 0, iv_end = 2, iv_strand = ''+''\<rparr>\<rparr>,
        \<lparr>iv = \<lparr>iv_chrom = ''chr1'', iv_start = 0, iv_end = 12, iv_strand = ''+''\<rparr>\<rparr>]"]
    indexer_len_sum [of 3 4 0 False
      "[\<lparr>iv = \<lparr>iv_chrom = ''chr1'', iv_start = 0, iv_end = 10, iv_strand = ''+''\<rparr>\<rparr>]"]
  by (simp add: spec_full_bins_def spec_trailing_def)

text \<open>
  Claim C1 as it is stated fails on a region shorter than a bin: for \<open>chr1:0-2\<close> with
  bins of 10 and steps of 1 and fixed batch sizes the formula gives \<open>n = -7\<close>, and the
  indexer is empty.
\<close>

theorem indexer_len_counterexample:
  "create_from_file
     [\<lparr>iv = \<lparr>iv_chrom = ''chr1'', iv_start = 0, iv_end = 2, iv_strand = ''+''\<rparr>\<rparr>] 10 1 0 True
     = Inr \<lparr>binsize = 10, stepsize = 1, flank = 0, chrs = [], offsets = [], inregionidx = [],
            strand = [], rel_end = []\<rparr> \<and>
   indexer_len \<lparr>binsize = 10, stepsize = 1, flank = 0, chrs = [], offsets = [],
                inregionidx = [], strand = [], rel_end = []\<rparr> = 0 \<and>
   spec_length [\<lparr>iv = \<lparr>iv_chrom = ''chr1'', iv_start = 0, iv_end = 2, iv_strand = ''+''\<rparr>\<rparr>]
     10 1 True = - 7"
  by (simp add: create_from_file_def GenomicIndexer_init_def ebind_def add_region_def
      region_val_def py_repeat_def py_range_def Let_def indexer_len_def spec_length_def
      spec_full_bins_def spec_trailing_def)

section \<open>The indexer: the trailing bin\<close>

text \<open>
  Claim C2, the code at the scenario of the specification: the region \<open>chr1:0-10\<close> with
  bins of 5 and steps of 3, variable batch sizes. The claim has \<open>n = 2\<close> full bins and,
  the length 10 leaving a remainder modulo 3, a trailing bin of the length
  \<open>L - n * stepsize = 4\<close> with the index 2, which is \<open>chr1:6-10\<close> and ends where the region
  ends. The loop appends the trailing row with the length 2, the remainder of
  \<^verbatim>\<open>val = L - binsize + stepsize = 8\<close>: the position 2 of the indexer is the bin
  \<open>chr1:6-8\<close>, which lies inside the second bin \<open>chr1:3-8\<close> and leaves \<open>chr1:8-10\<close>
  uncovered, against the comment of the source on that row, "a variable length fragment at
  the end".
\<close>

theorem trailing_bin_short_of_region_end:
  "create_from_file
     [\<lparr>iv = \<lparr>iv_chrom = ''chr1'', iv_start = 0, iv_end = 10, iv_strand = ''+''\<rparr>\<rparr>] 5 3 0 False
     = Inr \<lparr>binsize = 5, stepsize = 3, flank = 0,
            chrs = [''chr1'', ''chr1'', ''chr1''], offsets = [0, 0, 0],
            inregionidx = [0, 1, 2], strand = [''+'', ''+'', ''+''],
            rel_end = [5, 5, 2]\<rparr> \<and>
   indexer_getitem \<lparr>binsize = 5, stepsize = 3, flank = 0,
            chrs = [''chr1'', ''chr1'', ''chr1''], offsets = [0, 0, 0],
            inregionidx = [0, 1, 2], strand = [''+'', ''+'', ''+''],
            rel_end = [5, 5, 2]\<rparr> (PyInt 1)
     = Inr \<lparr>iv_chrom = ''chr1'', iv_start = 3, iv_end = 8, iv_strand = ''+''\<rparr> \<and>
   indexer_getitem \<lparr>binsize = 5, stepsize = 3, flank = 0,
            chrs = [''chr1'', ''chr1'', ''chr1''], offsets = [0, 0, 0],
            inregionidx = [0, 1, 2], strand = [''+'', ''+'', ''+''],
            rel_end = [5, 5, 2]\<rparr> (PyInt 2)
     = Inr \<lparr>iv_chrom = ''chr1'', iv_start = 6, iv_end = 8, iv_strand = ''+''\<rparr> \<and>
   spec_full_bins 5 3 (10 - 0) = 2 \<and>
   spec_trailing 3 False (10 - 0) \<and>
   (10 - 0) - spec_full_bins 5 3 (10 - 0) * 3 = 4"
  by (simp add: create_from_file_def GenomicIndexer_init_def ebind_def add_region_def
      region_val_def py_repeat_def py_range_def Let_def upto.simps eval_nat_numeral
      indexer_getitem_def py_getitem_def spec_full_bins_def spec_trailing_def)

section \<open>The indexer: access by position\<close>

lemma aligned_add_region:
  "columns_aligned g \<Longrightarrow> columns_aligned (add_region bsz stp fx g r)"
  by (simp add: columns_aligned_def add_region_def Let_def py_repeat_def length_py_range)

lemma aligned_foldl:
  "columns_aligned g \<Longrightarrow> columns_aligned (foldl (add_region bsz stp fx) g rs)"
  by (induction rs arbitrary: g) (simp_all add: aligned_add_region)

lemma aligned_init: "GenomicIndexer_init bsz stp flk = Inr g \<Longrightarrow> columns_aligned g"
  by (auto simp: GenomicIndexer_init_def columns_aligned_def split: if_splits)

lemma aligned_create:
  assumes "create_from_file regions bsz stp flk fx = Inr g"
  shows "columns_aligned g"
proof (cases "GenomicIndexer_init bsz stp flk")
  case (Inl e)
  with assms show ?thesis by (simp add: create_from_file_def ebind_def)
next
  case (Inr g0)
  with assms have "g = foldl (add_region bsz stp fx) g0 regions"
    by (simp add: create_from_file_def ebind_def)
  with aligned_init[OF Inr] show ?thesis by (simp add: aligned_foldl)
qed

lemma py_getitem_Inr_iff:
  "(\<exists>x. py_getitem xs i = Inr x) \<longleftrightarrow> - int (length xs) \<le> i \<and> i < int (length xs)"
  by (auto simp: py_getitem_def Let_def)

lemma py_getitem_cases: "py_getitem xs i = Inl IndexError \<or> (\<exists>x. py_getitem xs i = Inr x)"
  by (auto simp: py_getitem_def Let_def)

lemma py_getitem_neg:
  "i < 0 \<Longrightarrow> - int (length xs) \<le> i \<Longrightarrow> py_getitem xs i = py_getitem xs (i + int (length xs))"
  by (auto simp: py_getitem_def Let_def)

lemma aligned_lengths:
  assumes "columns_aligned g"
  shows "length (offsets g) = indexer_len g" and "length (inregionidx g) = indexer_len g"
    and "length (strand g) = indexer_len g" and "length (rel_end g) = indexer_len g"
    and "length (chrs g) = indexer_len g"
  using assms by (simp_all add: columns_aligned_def indexer_len_def)

lemma getitem_aligned_ok:
  assumes al: "columns_aligned g"
    and range: "- int (indexer_len g) \<le> i" "i < int (indexer_len g)"
  shows "\<exists>v. indexer_getitem g (PyInt i) = Inr v"
proof -
  note l = aligned_lengths[OF al]
  obtain a where a: "py_getitem (offsets g) i = Inr a"
    using py_getitem_Inr_iff[of "offsets g" i] range l by auto
  obtain b where b: "py_getitem (inregionidx g) i = Inr b"
    using py_getitem_Inr_iff[of "inregionidx g" i] range l by auto
  obtain c where c: "py_getitem (rel_end g) i = Inr c"
    using py_getitem_Inr_iff[of "rel_end g" i] range l by auto
  obtain d where d: "py_getitem (chrs g) i = Inr d"
    using py_getitem_Inr_iff[of "chrs g" i] range l by auto
  obtain e where e: "py_getitem (strand g) i = Inr e"
    using py_getitem_Inr_iff[of "strand g" i] range l by auto
  show ?thesis by (simp add: indexer_getitem_def a b c d e ebind_def Let_def)
qed

lemma getitem_aligned_bad:
  assumes al: "columns_aligned g"
    and out: "\<not> (- int (indexer_len g) \<le> i \<and> i < int (indexer_len g))"
  shows "indexer_getitem g (PyInt i) = Inl IndexError"
proof -
  have "py_getitem (offsets g) i = Inl IndexError"
    using py_getitem_Inr_iff[of "offsets g" i] py_getitem_cases[of "offsets g" i] out
      aligned_lengths(1)[OF al] by auto
  then show ?thesis by (simp add: indexer_getitem_def ebind_def)
qed

lemma getitem_aligned_neg:
  assumes al: "columns_aligned g" and neg: "i < 0" "- int (indexer_len g) \<le> i"
  shows "indexer_getitem g (PyInt i) = indexer_getitem g (PyInt (i + int (indexer_len g)))"
  using py_getitem_neg[of i "offsets g"] py_getitem_neg[of i "inregionidx g"]
    py_getitem_neg[of i "rel_end g"] py_getitem_neg[of i "chrs g"]
    py_getitem_neg[of i "strand g"] neg
  by (simp add: indexer_getitem_def aligned_lengths[OF al])

lemma flank_add_region: "flank (add_region bsz stp fx g r) = flank g"
  by (simp add: add_region_def Let_def)

lemma flank_foldl: "flank (foldl (add_region bsz stp fx) g rs) = flank g"
  by (induction rs arbitrary: g) (simp_all add: flank_add_region)

lemma flank_create:
  assumes "create_from_file regions bsz stp flk fx = Inr g"
  shows "0 \<le> flank g"
  using assms
  by (auto simp: create_from_file_def GenomicIndexer_init_def ebind_def flank_foldl
      split: if_splits)

text \<open>
  The intervals that a built indexer returns start before they end, so the constructor of
  \<^verbatim>\<open>GenomicInterval\<close>, which refuses a start after the end, accepts them.
\<close>

lemma built_getitem_start_before_end:
  assumes "create_from_file regions bsz stp flk fx = Inr g"
    and "indexer_getitem g index = Inr v"
  shows "iv_start v < iv_end v"
  using assms(2) flank_create[OF assms(1)]
  by (auto simp: indexer_getitem_def ebind_def Let_def split: option.splits sum.splits if_splits)

text \<open>
  Claim C7, amended. On a built indexer, \<^verbatim>\<open>__getitem__\<close> with an integer \<open>i\<close> returns
  an interval exactly when \<open>-length \<le> i < length\<close>, and raises \<^verbatim>\<open>IndexError\<close> otherwise;
  a negative \<open>i\<close> in that range is the position \<open>i + length\<close>, counted from the end, as
  Python lists index. A key that is no integer raises \<^verbatim>\<open>IndexError\<close>.
\<close>

theorem indexer_getitem_range:
  assumes "create_from_file regions bsz stp flk fixed_size_batches = Inr g"
  shows "(- int (indexer_len g) \<le> i \<and> i < int (indexer_len g) \<longrightarrow>
            (\<exists>v. indexer_getitem g (PyInt i) = Inr v)) \<and>
         (\<not> (- int (indexer_len g) \<le> i \<and> i < int (indexer_len g)) \<longrightarrow>
            indexer_getitem g (PyInt i) = Inl IndexError) \<and>
         (i < 0 \<and> - int (indexer_len g) \<le> i \<longrightarrow>
            indexer_getitem g (PyInt i) = indexer_getitem g (PyInt (i + int (indexer_len g)))) \<and>
         (as_int index = None \<longrightarrow> indexer_getitem g index = Inl IndexError)"
proof -
  note al = aligned_create[OF assms]
  show ?thesis
    using getitem_aligned_ok[OF al, of i] getitem_aligned_bad[OF al, of i]
      getitem_aligned_neg[OF al, of i]
    by (simp add: indexer_getitem_def)
qed

text \<open>
  The theorem on the indexer of the region \<open>chr1:0-10\<close> with bins and steps of 5: the
  position \<open>-1\<close> is the position 1, the position 2 and the key \<^verbatim>\<open>'a'\<close> raise.
\<close>

theorem indexer_getitem_range_witness:
  "create_from_file
     [\<lparr>iv = \<lparr>iv_chrom = ''chr1'', iv_start = 0, iv_end = 10, iv_strand = ''+''\<rparr>\<rparr>] 5 5 0 True
     = Inr \<lparr>binsize = 5, stepsize = 5, flank = 0, chrs = [''chr1'', ''chr1''],
            offsets = [0, 0], inregionidx = [0, 1], strand = [''+'', ''+''],
            rel_end = [5, 5]\<rparr> \<and>
   indexer_getitem \<lparr>binsize = 5, stepsize = 5, flank = 0, chrs = [''chr1'', ''chr1''],
            offsets = [0, 0], inregionidx = [0, 1], strand = [''+'', ''+''],
            rel_end = [5, 5]\<rparr> (PyInt (- 1))
     = indexer_getitem \<lparr>binsize = 5, stepsize = 5, flank = 0, chrs = [''chr1'', ''chr1''],
            offsets = [0, 0], inregionidx = [0, 1], strand = [''+'', ''+''],
            rel_end = [5, 5]\<rparr> (PyInt 1) \<and>
   indexer_getitem \<lparr>binsize = 5, stepsize = 5, flank = 0, chrs = [''chr1'', ''chr1''],
            offsets = [0, 0], inregionidx = [0, 1], strand = [''+'', ''+''],
            rel_end = [5, 5]\<rparr> (PyInt 2) = Inl IndexError \<and>
   indexer_getitem \<lparr>binsize = 5, stepsize = 5, flank = 0, chrs = [''chr1'', ''chr1''],
            offsets = [0, 0], inregionidx = [0, 1], strand = [''+'', ''+''],
            rel_end = [5, 5]\<rparr> (PyStr ''a'') = Inl IndexError"
proof -
  let ?g = "\<lparr>binsize = 5, stepsize = 5, flank = 0, chrs = [''chr1'', ''chr1''],
            offsets = [0, 0], inregionidx = [0, 1], strand = [''+'', ''+''],
            rel_end = [5, 5]\<rparr>"
  have built: "create_from_file
     [\<lparr>iv = \<lparr>iv_chrom = ''chr1'', iv_start = 0, iv_end = 10, iv_strand = ''+''\<rparr>\<rparr>] 5 5 0 True
     = Inr ?g"
    by (simp add: create_from_file_def GenomicIndexer_init_def ebind_def add_region_def
        region_val_def py_repeat_def py_range_def Let_def upto.simps eval_nat_numeral)
  have len: "indexer_len ?g = 2" by (simp add: indexer_len_def)
  from indexer_getitem_range[OF built, of "- 1" "PyStr ''a''"]
  have "indexer_getitem ?g (PyInt (- 1)) = indexer_getitem ?g (PyInt 1)"
    and "indexer_getitem ?g (PyStr ''a'') = Inl IndexError"
    by (simp_all add: len)
  moreover from indexer_getitem_range[OF built, of 2 PyNone]
  have "indexer_getitem ?g (PyInt 2) = Inl IndexError"
    by (simp add: len)
  ultimately show ?thesis using built by simp
qed

text \<open>
  Claim C7 as it is stated fails at a negative position: on the indexer of the region
  \<open>chr1:0-10\<close> with bins and steps of 5, the position \<open>-1\<close> returns the last bin,
  \<open>chr1:5-10\<close>.
\<close>

theorem indexer_getitem_counterexample:
  "create_from_file
     [\<lparr>iv = \<lparr>iv_chrom = ''chr1'', iv_start = 0, iv_end = 10, iv_strand = ''+''\<rparr>\<rparr>] 5 5 0 True
     = Inr \<lparr>binsize = 5, stepsize = 5, flank = 0, chrs = [''chr1'', ''chr1''],
            offsets = [0, 0], inregionidx = [0, 1], strand = [''+'', ''+''],
            rel_end = [5, 5]\<rparr> \<and>
   indexer_getitem \<lparr>binsize = 5, stepsize = 5, flank = 0, chrs = [''chr1'', ''chr1''],
            offsets = [0, 0], inregionidx = [0, 1], strand = [''+'', ''+''],
            rel_end = [5, 5]\<rparr> (PyInt (- 1))
     = Inr \<lparr>iv_chrom = ''chr1'', iv_start = 5, iv_end = 10, iv_strand = ''+''\<rparr>"
  by (simp add: create_from_file_def GenomicIndexer_init_def ebind_def add_region_def
      region_val_def py_repeat_def py_range_def Let_def upto.simps eval_nat_numeral
      indexer_getitem_def py_getitem_def)

section \<open>The indexer: positions by chromosome\<close>

text \<open>
  Claim C8. For every indexer and every chromosome name \<open>c\<close>, the positions that
  \<^verbatim>\<open>idx_by_chrom\<close> returns for \<^verbatim>\<open>include={c}\<close> and those it returns for
  \<^verbatim>\<open>exclude={c}\<close> partition the positions \<open>0 .. length - 1\<close>: their union is the whole
  set and they share no position.
\<close>

theorem idx_by_chrom_partition:
  "idx_by_chrom g (FNames [c]) FNone \<union> idx_by_chrom g FNone (FNames [c]) = {0..<indexer_len g} \<and>
   idx_by_chrom g (FNames [c]) FNone \<inter> idx_by_chrom g FNone (FNames [c]) = {}"
  by (auto simp: idx_by_chrom_def where_chrom_def indexer_len_def)

text \<open>
  The theorem on an indexer with three bins on two chromosomes: the two results together
  are the positions 0, 1 and 2.
\<close>

theorem idx_by_chrom_partition_witness:
  "idx_by_chrom \<lparr>binsize = 5, stepsize = 5, flank = 0, chrs = [''chr1'', ''chr2'', ''chr1''],
       offsets = [0, 0, 0], inregionidx = [0, 0, 1], strand = [''+'', ''+'', ''+''],
       rel_end = [5, 5, 5]\<rparr> (FNames [''chr1'']) FNone \<union>
     idx_by_chrom \<lparr>binsize = 5, stepsize = 5, flank = 0, chrs = [''chr1'', ''chr2'', ''chr1''],
       offsets = [0, 0, 0], inregionidx = [0, 0, 1], strand = [''+'', ''+'', ''+''],
       rel_end = [5, 5, 5]\<rparr> FNone (FNames [''chr1'']) = {0..<3} \<and>
   idx_by_chrom \<lparr>binsize = 5, stepsize = 5, flank = 0, chrs = [''chr1'', ''chr2'', ''chr1''],
       offsets = [0, 0, 0], inregionidx = [0, 0, 1], strand = [''+'', ''+'', ''+''],
       rel_end = [5, 5, 5]\<rparr> (FNames [''chr1'']) FNone \<inter>
     idx_by_chrom \<lparr>binsize = 5, stepsize = 5, flank = 0, chrs = [''chr1'', ''chr2'', ''chr1''],
       offsets = [0, 0, 0], inregionidx = [0, 0, 1], strand = [''+'', ''+'', ''+''],
       rel_end = [5, 5, 5]\<rparr> FNone (FNames [''chr1'']) = {}"
  using idx_by_chrom_partition [of
      "\<lparr>binsize = 5, stepsize = 5, flank = 0, chrs = [''chr1'', ''chr2'', ''chr1''],
        offsets = [0, 0, 0], inregionidx = [0, 0, 1], strand = [''+'', ''+'', ''+''],
        rel_end = [5, 5, 5]\<rparr>" "''chr1''"]
  by (simp add: indexer_len_def eval_nat_numeral)

section \<open>The array store: reading and writing\<close>

lemma map_enumerate_id:
  "map (\<lambda>(k, r). if lo \<le> k \<and> k < lo then f k r else r) (enumerate n xs) = xs"
  by (induction xs arbitrary: n) auto

lemma np_index_ok:
  "- int n \<le> i \<Longrightarrow> i < int n \<Longrightarrow> np_index n i = Inr (nat (if i < 0 then i + int n else i))"
  by (simp add: np_index_def)

lemma slice_bound_le: "slice_bound n i \<le> n"
  by (auto simp: slice_bound_def)

lemma cond_positions_int:
  "- int n \<le> c \<Longrightarrow> c < int n \<Longrightarrow>
     cond_positions n (CInt c) = Inr [nat (if c < 0 then c + int n else c)]"
  by (simp add: np_index_ok ebind_def)

lemma assign_row_one: "assign_row xs [ci] f = xs[ci := f ci]"
  by (simp add: assign_row_def)

lemma ndarray_setitem_int:
  assumes "- int (axis1 a) \<le> s" "s < int (axis1 a)" "- int (axis2 a) \<le> c" "c < int (axis2 a)"
    and "prepare lib a (slice_bound (length (rows a)) stop - slice_bound (length (rows a)) start)
           (CInt c) v = Inr el"
  shows "ndarray_setitem lib a start stop s (CInt c) v =
     Inr (a\<lparr>rows := map (\<lambda>(k, r).
              if slice_bound (length (rows a)) start \<le> k \<and> k < slice_bound (length (rows a)) stop
              then r[nat (if s < 0 then s + int (axis1 a) else s) :=
                     (r ! nat (if s < 0 then s + int (axis1 a) else s))
                       [nat (if c < 0 then c + int (axis2 a) else c) :=
                          el (k - slice_bound (length (rows a)) start)
                             (nat (if c < 0 then c + int (axis2 a) else c))]]
              else r) (enumerate 0 (rows a))\<rparr>)"
  unfolding ndarray_setitem_def
  using assms
  by (simp add: np_index_ok cond_positions_int ebind_def Let_def assign_row_one
      del: cond_positions.simps cong: if_cong)

lemma ndarray_setitem_empty:
  assumes "slice_bound (length (rows a)) start = slice_bound (length (rows a)) stop"
    and "- int (axis1 a) \<le> s" "s < int (axis1 a)" "- int (axis2 a) \<le> c" "c < int (axis2 a)"
    and "prepare lib a 0 (CInt c) v = Inr el"
  shows "ndarray_setitem lib a start stop s (CInt c) v = Inr a"
proof -
  have p: "prepare lib a (slice_bound (length (rows a)) stop
      - slice_bound (length (rows a)) start) (CInt c) v = Inr el"
    using assms(1,6) by simp
  show ?thesis
    unfolding ndarray_setitem_int[OF assms(2,3,4,5) p]
    using assms(1) by (simp add: map_enumerate_id)
qed

lemma upd_cell:
  assumes "length r = n1" "\<forall>x \<in> set r. length x = n2" "si < n1" "ci < n2"
  shows "r[si := (r ! si)[ci := v]] ! si ! ci = v"
proof -
  have "length (r ! si) = n2" using assms by simp
  then show ?thesis using assms by simp
qed

lemma wf_row:
  assumes "wf_ndarray a" "k < length (rows a)"
  shows "length (rows a ! k) = axis1 a" "\<forall>x \<in> set (rows a ! k). length x = axis2 a"
proof -
  have "rows a ! k \<in> set (rows a)" using assms(2) by simp
  with assms(1) show "length (rows a ! k) = axis1 a" "\<forall>x \<in> set (rows a ! k). length x = axis2 a"
    unfolding wf_ndarray_def list_all_iff by blast+
qed

lemma setitem_then_slice:
  assumes wf: "wf_ndarray a"
    and s: "- int (axis1 a) \<le> s" "s < int (axis1 a)"
    and c: "- int (axis2 a) \<le> c" "c < int (axis2 a)"
    and p: "prepare lib a (slice_bound (length (rows a)) stop
              - slice_bound (length (rows a)) start) (CInt c) v = Inr el"
  shows "\<exists>a'. ndarray_setitem lib a start stop s (CInt c) v = Inr a' \<and>
       length (py_slice (rows a') start stop) =
          slice_bound (length (rows a)) stop - slice_bound (length (rows a)) start \<and>
       (\<forall>j < slice_bound (length (rows a)) stop - slice_bound (length (rows a)) start.
           py_slice (rows a') start stop ! j
             ! nat (if s < 0 then s + int (axis1 a) else s)
             ! nat (if c < 0 then c + int (axis2 a) else c)
           = el j (nat (if c < 0 then c + int (axis2 a) else c)))"
proof -
  define n where "n = length (rows a)"
  define lo where "lo = slice_bound n start"
  define hi where "hi = slice_bound n stop"
  define si where "si = nat (if s < 0 then s + int (axis1 a) else s)"
  define ci where "ci = nat (if c < 0 then c + int (axis2 a) else c)"
  define upd where "upd k r = r[si := (r ! si)[ci := el (k - lo) ci]]" for k r
  define rows' where
    "rows' = map (\<lambda>(k, r). if lo \<le> k \<and> k < hi then upd k r else r) (enumerate 0 (rows a))"
  have si: "si < axis1 a" and ci: "ci < axis2 a" using s c by (auto simp: si_def ci_def)
  have eq: "ndarray_setitem lib a start stop s (CInt c) v = Inr (a\<lparr>rows := rows'\<rparr>)"
    unfolding ndarray_setitem_int[OF s c p] rows'_def upd_def lo_def hi_def n_def si_def ci_def
    by simp
  have len: "length rows' = n" by (simp add: rows'_def n_def)
  have hi: "hi \<le> n" unfolding hi_def by (rule slice_bound_le)
  have sl: "py_slice rows' start stop = take (hi - lo) (drop lo rows')"
    by (simp add: py_slice_def Let_def len lo_def hi_def)
  have lenslice: "length (py_slice rows' start stop) = hi - lo"
    using hi by (simp add: sl len)
  have cells: "py_slice rows' start stop ! j ! si ! ci = el j ci" if j: "j < hi - lo" for j
  proof -
    have k: "lo + j < n" using j hi by simp
    have "py_slice rows' start stop ! j = rows' ! (lo + j)"
      using j k by (simp add: sl len)
    also have "\<dots> = upd (lo + j) (rows a ! (lo + j))"
    proof -
      have "lo + j < hi" using j by arith
      then show ?thesis using k by (simp add: rows'_def n_def nth_enumerate_eq)
    qed
    finally have r: "py_slice rows' start stop ! j = upd (lo + j) (rows a ! (lo + j))" .
    have "upd (lo + j) (rows a ! (lo + j)) ! si ! ci = el (lo + j - lo) ci"
      unfolding upd_def
      using wf_row[OF wf, of "lo + j"] k si ci
      by (intro upd_cell[where ?n1.0="axis1 a" and ?n2.0="axis2 a"]) (simp_all add: n_def)
    then show ?thesis unfolding r by simp
  qed
  have "ndarray_setitem lib a start stop s (CInt c) v = Inr (a\<lparr>rows := rows'\<rparr>) \<and>
       length (py_slice (rows (a\<lparr>rows := rows'\<rparr>)) start stop) = hi - lo \<and>
       (\<forall>j < hi - lo. py_slice (rows (a\<lparr>rows := rows'\<rparr>)) start stop ! j ! si ! ci = el j ci)"
    using eq lenslice cells by simp
  then show ?thesis unfolding si_def ci_def hi_def lo_def n_def by blast
qed

lemma array_setitem_numpy:
  assumes "resolution st \<noteq> 0"
    and "assigns_as_numpy lib st i c v a"
    and "handle st (iv_chrom i) = Some (Arr a)"
  shows "array_setitem lib st (PyTuple [PyInterval i, PyInt c]) v =
     ebind (ndarray_setitem lib a (iv_start i div resolution st) (iv_end i div resolution st)
              (if stranded st \<and> iv_strand i = ''-'' then 1 else 0) (CInt c) v)
       (\<lambda>a'. Inr (st\<lparr>handle := (handle st)(iv_chrom i \<mapsto> Arr a')\<rparr>))"
proof -
  from assms(2) consider "backing st = Dict"
    | "backing st = H5Write"
      "h5_setitem lib True a (iv_start i div resolution st) (iv_end i div resolution st)
          (if stranded st \<and> iv_strand i = ''-'' then 1 else 0) (CInt c) v
        = ndarray_setitem lib a (iv_start i div resolution st) (iv_end i div resolution st)
            (if stranded st \<and> iv_strand i = ''-'' then 1 else 0) (CInt c) v"
    unfolding assigns_as_numpy_def by blast
  then show ?thesis
  proof cases
    case 1
    then show ?thesis
      using assms(1,3) by (simp add: array_setitem_def ebind_def Let_def split: sum.splits)
  next
    case 2
    then show ?thesis
      using assms(1,3) by (simp add: array_setitem_def ebind_def Let_def split: sum.splits)
  qed
qed

lemma int64_h5_as_numpy:
  "backing st = H5Write \<Longrightarrow> assigns_as_numpy int64_lib st i c v a"
  by (simp add: assigns_as_numpy_def int64_lib_def ndarray_setitem_def)

text \<open>
  A store on a file opened for reading does not change: a write to it raises, or returns
  the store as it was.
\<close>

lemma sealed_store_unchanged:
  assumes "backing st = H5Read" and "array_setitem lib st index v = Inr st'"
  shows "st' = st"
  using assms
  by (auto simp: array_setitem_def ebind_def Let_def
      split: sum.splits if_splits prod.splits option.splits)

text \<open>
  Claim C4, amended. \<^verbatim>\<open>__getitem__\<close> takes the interval alone, without a condition
  index. Every key that is no \<^verbatim>\<open>GenomicInterval\<close>, the pair of an interval and a
  condition index among them, raises \<^verbatim>\<open>IndexError\<close>. For an interval on a chromosome
  whose array the store holds, it returns the rows
  \<open>handle[chrom][start div resolution : end div resolution]\<close> whole, all strands and all
  conditions of each selected cell.
\<close>

theorem array_getitem_interval_only:
  "(as_interval index = None \<longrightarrow> array_getitem st index = Inl IndexError) \<and>
   array_getitem st (PyTuple [PyInterval i, PyInt c]) = Inl IndexError \<and>
   (resolution st \<noteq> 0 \<and> handle st (iv_chrom i) = Some (Arr a) \<longrightarrow>
      array_getitem st (PyInterval i) =
        Inr (Arr (a\<lparr>rows := py_slice (rows a) (iv_start i div resolution st)
                                 (iv_end i div resolution st)\<rparr>)))"
  by (simp add: array_getitem_def ndarray_getslice_def)

text \<open>
  The theorem on a store of one chromosome with three cells, two strands and two
  conditions: the interval \<open>chr1:0-2\<close> returns the first two cells, each with its two
  strands and two conditions.
\<close>

theorem array_getitem_interval_only_witness:
  "as_interval PyNone = None \<and>
   array_getitem \<lparr>stranded = True, condition = [''a'', ''b''], resolution = 1, order = 1,
       typecode = ''d'',
       handle = [''chr1'' \<mapsto> Arr \<lparr>axis1 = 2, axis2 = 2,
          rows = [[[1, 2], [3, 4]], [[5, 6], [7, 8]], [[9, 10], [11, 12::int]]]\<rparr>],
       backing = Dict\<rparr> PyNone
     = Inl IndexError \<and>
   array_getitem \<lparr>stranded = True, condition = [''a'', ''b''], resolution = 1, order = 1,
       typecode = ''d'',
       handle = [''chr1'' \<mapsto> Arr \<lparr>axis1 = 2, axis2 = 2,
          rows = [[[1, 2], [3, 4]], [[5, 6], [7, 8]], [[9, 10], [11, 12::int]]]\<rparr>],
       backing = Dict\<rparr>
       (PyInterval \<lparr>iv_chrom = ''chr1'', iv_start = 0, iv_end = 2, iv_strand = ''+''\<rparr>)
     = Inr (Arr \<lparr>axis1 = 2, axis2 = 2, rows = [[[1, 2], [3, 4]], [[5, 6], [7, 8]]]\<rparr>)"
  using array_getitem_interval_only [of PyNone
      "\<lparr>stranded = True, condition = [''a'', ''b''], resolution = 1, order = 1,
        typecode = ''d'',
        handle = [''chr1'' \<mapsto> Arr \<lparr>axis1 = 2, axis2 = 2,
          rows = [[[1, 2], [3, 4]], [[5, 6], [7, 8]], [[9, 10], [11, 12::int]]]\<rparr>],
       backing = Dict\<rparr>"
      "\<lparr>iv_chrom = ''chr1'', iv_start = 0, iv_end = 2, iv_strand = ''+''\<rparr>" 0
      "\<lparr>axis1 = 2, axis2 = 2,
          rows = [[[1, 2], [3, 4]], [[5, 6], [7, 8]], [[9, 10], [11, 12::int]]]\<rparr>"]
  by (simp add: py_slice_def slice_bound_def)

text \<open>
  Claim C4 as it is stated fails: with the key the claim gives, an interval and the valid
  condition index 0, \<^verbatim>\<open>__getitem__\<close> raises \<^verbatim>\<open>IndexError\<close> instead of returning the
  cells of that condition.
\<close>

theorem array_getitem_counterexample:
  "array_getitem \<lparr>stranded = False, condition = [''sample''], resolution = 1, order = 1,
       typecode = ''d'',
       handle = [''chr1'' \<mapsto> Arr \<lparr>axis1 = 1, axis2 = 1, rows = [[[0::int]], [[0]], [[0]]]\<rparr>],
       backing = Dict\<rparr>
     (PyTuple [PyInterval \<lparr>iv_chrom = ''chr1'', iv_start = 0, iv_end = 2, iv_strand = ''+''\<rparr>,
               PyInt 0])
     = Inl IndexError \<and>
   (0::int) \<le> 0 \<and> (0::int) < int (length [''sample''])"
  by (simp add: array_getitem_def)

text \<open>
  Claim C5, amended. Take a store that holds a well-formed array for the chromosome of the
  interval and whose handle is a dictionary of numpy arrays, or an h5py file opened for
  writing on which h5py assigns as numpy does; an interval that selects at least one cell
  of that array; an integer condition index valid for the array; and a value that numpy
  converts to the dtype of the array and broadcasts to the selected cells. Then the write
  returns a store, and reading that store with the interval alone
  returns the selected cells, from \<open>start div resolution\<close> to \<open>end div resolution\<close>
  (clipped to the array), each of which carries, at the strand and the condition of the
  write, the element that numpy's conversion and broadcast of the value gives for it. The
  read takes no condition index: with the key of the write it raises \<^verbatim>\<open>IndexError\<close>.
\<close>

theorem write_then_read_interval:
  assumes "wf_ndarray a"
    and "resolution st \<noteq> 0"
    and "assigns_as_numpy lib st i c v a"
    and "handle st (iv_chrom i) = Some (Arr a)"
    and "strand_axis st i < axis1 a"
    and "- int (axis2 a) \<le> c" and "c < int (axis2 a)"
    and "first_cell st i a < end_cell st i a"
    and "prepare lib a (end_cell st i a - first_cell st i a) (CInt c) v = Inr el"
  shows "\<exists>st' b. array_setitem lib st (PyTuple [PyInterval i, PyInt c]) v = Inr st' \<and>
     array_getitem st' (PyInterval i) = Inr (Arr b) \<and>
     length (rows b) = end_cell st i a - first_cell st i a \<and>
     rows b \<noteq> [] \<and>
     (\<forall>j < length (rows b).
        rows b ! j ! strand_axis st i ! nat (if c < 0 then c + int (axis2 a) else c)
          = el j (nat (if c < 0 then c + int (axis2 a) else c))) \<and>
     array_getitem st' (PyTuple [PyInterval i, PyInt c]) = Inl IndexError"
proof -
  define s :: int where "s = (if stranded st \<and> iv_strand i = ''-'' then 1 else 0)"
  define start where "start = iv_start i div resolution st"
  define stop where "stop = iv_end i div resolution st"
  define ci where "ci = nat (if c < 0 then c + int (axis2 a) else c)"
  have s: "- int (axis1 a) \<le> s" "s < int (axis1 a)"
    using assms(5) by (auto simp: s_def strand_axis_def split: if_splits)
  have sn: "nat (if s < 0 then s + int (axis1 a) else s) = strand_axis st i"
    by (simp add: s_def strand_axis_def)
  have k: "slice_bound (length (rows a)) stop - slice_bound (length (rows a)) start
      = end_cell st i a - first_cell st i a"
    by (simp add: first_cell_def end_cell_def start_def stop_def)
  have p: "prepare lib a (slice_bound (length (rows a)) stop
      - slice_bound (length (rows a)) start) (CInt c) v = Inr el"
    unfolding k by (rule assms(9))
  from setitem_then_slice[OF assms(1) s assms(6,7) p]
  obtain a' where a': "ndarray_setitem lib a start stop s (CInt c) v = Inr a'"
    "length (py_slice (rows a') start stop) = end_cell st i a - first_cell st i a"
    "\<forall>j < end_cell st i a - first_cell st i a.
       py_slice (rows a') start stop ! j ! strand_axis st i ! ci = el j ci"
    unfolding sn k ci_def by blast
  let ?st' = "st\<lparr>handle := (handle st)(iv_chrom i \<mapsto> Arr a')\<rparr>"
  let ?b = "a'\<lparr>rows := py_slice (rows a') start stop\<rparr>"
  have w: "array_setitem lib st (PyTuple [PyInterval i, PyInt c]) v = Inr ?st'"
    unfolding array_setitem_numpy[OF assms(2,3,4)]
    using a'(1) by (simp add: ebind_def s_def start_def stop_def)
  have r: "array_getitem ?st' (PyInterval i) = Inr (Arr ?b)"
    using assms(2) by (simp add: array_getitem_def ndarray_getslice_def start_def stop_def)
  have e: "array_getitem ?st' (PyTuple [PyInterval i, PyInt c]) = Inl IndexError"
    by (simp add: array_getitem_def)
  have ne: "rows ?b \<noteq> []"
    using a'(2) assms(8) by auto
  have "array_setitem lib st (PyTuple [PyInterval i, PyInt c]) v = Inr ?st' \<and>
     array_getitem ?st' (PyInterval i) = Inr (Arr ?b) \<and>
     length (rows ?b) = end_cell st i a - first_cell st i a \<and>
     rows ?b \<noteq> [] \<and>
     (\<forall>j < length (rows ?b). rows ?b ! j ! strand_axis st i ! ci = el j ci) \<and>
     array_getitem ?st' (PyTuple [PyInterval i, PyInt c]) = Inl IndexError"
    using w r e ne a'(2,3) by simp
  then show ?thesis unfolding ci_def by blast
qed

text \<open>
  The theorem on a store of one chromosome with three cells, once with a dictionary of
  arrays and once with a file opened for writing: the value 7 written to \<open>chr1:0-2\<close>
  comes back in the two cells that the interval alone reads.
\<close>

theorem write_then_read_interval_witness:
  "wf_ndarray \<lparr>axis1 = 1, axis2 = 1, rows = [[[0::int]], [[0]], [[0]]]\<rparr> \<and>
   prepare int64_lib \<lparr>axis1 = 1, axis2 = 1, rows = [[[0::int]], [[0]], [[0]]]\<rparr> 2 (CInt 0) 7
     = Inr (\<lambda>j ci. 7) \<and>
   write_then_read int64_lib
     \<lparr>stranded = False, condition = [''sample''], resolution = 1, order = 1,
      typecode = ''int'',
      handle = [''chr1'' \<mapsto> Arr \<lparr>axis1 = 1, axis2 = 1, rows = [[[0::int]], [[0]], [[0]]]\<rparr>],
      backing = Dict\<rparr>
     \<lparr>iv_chrom = ''chr1'', iv_start = 0, iv_end = 2, iv_strand = ''+''\<rparr> 0 7
   = Some (Inl IndexError, Inr (Arr \<lparr>axis1 = 1, axis2 = 1, rows = [[[7]], [[7]]]\<rparr>)) \<and>
   write_then_read int64_lib
     \<lparr>stranded = False, condition = [''sample''], resolution = 1, order = 1,
      typecode = ''int'',
      handle = [''chr1'' \<mapsto> Arr \<lparr>axis1 = 1, axis2 = 1, rows = [[[0::int]], [[0]], [[0]]]\<rparr>],
      backing = H5Write\<rparr>
     \<lparr>iv_chrom = ''chr1'', iv_start = 0, iv_end = 2, iv_strand = ''+''\<rparr> 0 7
   = Some (Inl IndexError, Inr (Arr \<lparr>axis1 = 1, axis2 = 1, rows = [[[7]], [[7]]]\<rparr>))"
proof -
  let ?a = "\<lparr>axis1 = 1, axis2 = 1, rows = [[[0::int]], [[0]], [[0]]]\<rparr>"
  let ?i = "\<lparr>iv_chrom = ''chr1'', iv_start = 0, iv_end = 2, iv_strand = ''+''\<rparr>"
  have wf: "wf_ndarray ?a" by (simp add: wf_ndarray_def)
  have p: "prepare int64_lib ?a 2 (CInt 0) 7 = Inr (\<lambda>j ci. 7)"
    by (simp add: int64_lib_def int64_prepare_def)
  have run: "write_then_read int64_lib
       \<lparr>stranded = False, condition = [''sample''], resolution = 1, order = 1,
        typecode = ''int'', handle = [''chr1'' \<mapsto> Arr ?a], backing = bk\<rparr> ?i 0 7
     = Some (Inl IndexError, Inr (Arr \<lparr>axis1 = 1, axis2 = 1, rows = [[[7]], [[7]]]\<rparr>))"
    if bk: "bk = Dict \<or> bk = H5Write" for bk
  proof -
    let ?st = "\<lparr>stranded = False, condition = [''sample''], resolution = 1, order = 1,
        typecode = ''int'', handle = [''chr1'' \<mapsto> Arr ?a], backing = bk\<rparr>"
    have num: "assigns_as_numpy int64_lib ?st ?i 0 7 ?a"
      using bk int64_h5_as_numpy[of ?st ?i 0 7 ?a] by (auto simp: assigns_as_numpy_def)
    have lt: "first_cell ?st ?i ?a < end_cell ?st ?i ?a"
      by (simp add: first_cell_def end_cell_def slice_bound_def)
    have p': "prepare int64_lib ?a (end_cell ?st ?i ?a - first_cell ?st ?i ?a) (CInt 0) 7
        = Inr (\<lambda>j ci. 7)"
      by (simp add: int64_lib_def int64_prepare_def)
    from write_then_read_interval[where a = ?a and st = ?st and i = ?i and c = 0
        and lib = int64_lib and v = 7 and el = "\<lambda>j ci. 7", OF wf _ num _ _ _ _ lt p']
    obtain st' b where w: "array_setitem int64_lib ?st (PyTuple [PyInterval ?i, PyInt 0]) 7 = Inr st'"
      and r: "array_getitem st' (PyInterval ?i) = Inr (Arr b)"
      and n: "length (rows b) = end_cell ?st ?i ?a - first_cell ?st ?i ?a"
      and cells: "\<forall>j < length (rows b). rows b ! j ! strand_axis ?st ?i ! 0 = 7"
      and e: "array_getitem st' (PyTuple [PyInterval ?i, PyInt 0]) = Inl IndexError"
      by (auto simp: strand_axis_def)
    have len: "length (rows b) = 2"
      using n by (simp add: first_cell_def end_cell_def slice_bound_def)
    have st': "st' = ?st\<lparr>handle := [''chr1'' \<mapsto>
        Arr \<lparr>axis1 = 1, axis2 = 1, rows = [[[7]], [[7]], [[0]]]\<rparr>]\<rparr>"
      using w bk
      by (auto simp: array_setitem_def ebind_def Let_def ndarray_setitem_def np_index_def
          slice_bound_def enumerate_eq_zip upt_conv_Cons int64_lib_def int64_prepare_def
          assign_row_def)
    have "array_getitem st' (PyInterval ?i)
        = Inr (Arr \<lparr>axis1 = 1, axis2 = 1, rows = [[[7]], [[7]]]\<rparr>)"
      unfolding st'
      by (simp add: array_getitem_def ndarray_getslice_def py_slice_def slice_bound_def)
    then show ?thesis
      using w e by (simp add: write_then_read_def)
  qed
  show ?thesis
    using wf p run[of Dict] run[of H5Write] by simp
qed

text \<open>
  Claim C5 as it is stated fails on a store with a resolution of 10, at the interval
  \<open>chr1:3-7\<close> and the condition index 0: the write of 7 raises nothing, the read at the
  same interval and condition raises \<^verbatim>\<open>IndexError\<close>, and the read with the interval
  alone returns no cell, so the written value does not come back. The two ends of the
  interval fall into the cell 0, and the write has stored nothing.
\<close>

theorem write_then_read_counterexample:
  "write_then_read int64_lib
     \<lparr>stranded = False, condition = [''sample''], resolution = 10, order = 1,
      typecode = ''int'',
      handle = [''chr1'' \<mapsto> Arr \<lparr>axis1 = 1, axis2 = 1, rows = [[[0::int]], [[0]], [[0]]]\<rparr>],
      backing = Dict\<rparr>
     \<lparr>iv_chrom = ''chr1'', iv_start = 3, iv_end = 7, iv_strand = ''+''\<rparr> 0 7
   = Some (Inl IndexError, Inr (Arr \<lparr>axis1 = 1, axis2 = 1, rows = []\<rparr>))"
  by (simp add: write_then_read_def array_setitem_def array_getitem_def ebind_def Let_def
      ndarray_setitem_def np_index_def slice_bound_def ndarray_getslice_def py_slice_def
      enumerate_eq_zip upt_conv_Cons int64_lib_def int64_prepare_def assign_row_def)

text \<open>
  Claim C10, amended. Take a store that holds an array for the chromosome of the interval
  and whose handle is a dictionary of numpy arrays, or an h5py file opened for writing on
  which h5py assigns as numpy does; an interval with the two ends in one storage cell; an
  integer condition index valid for the array; and a value that numpy converts to the
  dtype of the array and broadcasts to a selection of no cell. Then the write raises no
  error and returns the store as it was: no cell of any chromosome array changes.
\<close>

theorem array_setitem_same_cell:
  assumes "iv_start i div resolution st = iv_end i div resolution st"
    and "resolution st \<noteq> 0"
    and "assigns_as_numpy lib st i c v a"
    and "handle st (iv_chrom i) = Some (Arr a)"
    and "strand_axis st i < axis1 a"
    and "- int (axis2 a) \<le> c" and "c < int (axis2 a)"
    and "prepare lib a 0 (CInt c) v = Inr el"
  shows "array_setitem lib st (PyTuple [PyInterval i, PyInt c]) v = Inr st"
proof -
  let ?s = "if stranded st \<and> iv_strand i = ''-'' then 1 else (0::int)"
  have s: "- int (axis1 a) \<le> ?s" "?s < int (axis1 a)"
    using assms(5) by (auto simp: strand_axis_def split: if_splits)
  have "ndarray_setitem lib a (iv_start i div resolution st) (iv_end i div resolution st) ?s
      (CInt c) v = Inr a"
    using ndarray_setitem_empty[OF _ s assms(6,7,8)] assms(1) by simp
  moreover have "(handle st)(iv_chrom i \<mapsto> Arr a) = handle st"
    using assms(4) by (rule map_upd_triv)
  ultimately show ?thesis
    unfolding array_setitem_numpy[OF assms(2,3,4)] by (simp add: ebind_def)
qed

text \<open>
  The theorem on a store with a resolution of 10, once with a dictionary of arrays and
  once with a file opened for writing: the interval \<open>chr1:3-7\<close> lies within the cell 0,
  and the write of 7 leaves the store as it was.
\<close>

theorem array_setitem_same_cell_witness:
  "(3::int) div 10 = 7 div 10 \<and>
   prepare int64_lib \<lparr>axis1 = 1, axis2 = 1, rows = [[[0::int]], [[0]], [[0]]]\<rparr> 0 (CInt 0) 7
     = Inr (\<lambda>j ci. 7) \<and>
   array_setitem int64_lib
     \<lparr>stranded = False, condition = [''sample''], resolution = 10, order = 1,
      typecode = ''int'',
      handle = [''chr1'' \<mapsto> Arr \<lparr>axis1 = 1, axis2 = 1, rows = [[[0::int]], [[0]], [[0]]]\<rparr>],
      backing = Dict\<rparr>
     (PyTuple [PyInterval \<lparr>iv_chrom = ''chr1'', iv_start = 3, iv_end = 7, iv_strand = ''+''\<rparr>,
               PyInt 0]) 7
   = Inr \<lparr>stranded = False, condition = [''sample''], resolution = 10, order = 1,
          typecode = ''int'',
          handle = [''chr1'' \<mapsto> Arr \<lparr>axis1 = 1, axis2 = 1, rows = [[[0::int]], [[0]], [[0]]]\<rparr>],
          backing = Dict\<rparr> \<and>
   array_setitem int64_lib
     \<lparr>stranded = False, condition = [''sample''], resolution = 10, order = 1,
      typecode = ''int'',
      handle = [''chr1'' \<mapsto> Arr \<lparr>axis1 = 1, axis2 = 1, rows = [[[0::int]], [[0]], [[0]]]\<rparr>],
      backing = H5Write\<rparr>
     (PyTuple [PyInterval \<lparr>iv_chrom = ''chr1'', iv_start = 3, iv_end = 7, iv_strand = ''+''\<rparr>,
               PyInt 0]) 7
   = Inr \<lparr>stranded = False, condition = [''sample''], resolution = 10, order = 1,
          typecode = ''int'',
          handle = [''chr1'' \<mapsto> Arr \<lparr>axis1 = 1, axis2 = 1, rows = [[[0::int]], [[0]], [[0]]]\<rparr>],
          backing = H5Write\<rparr>"
proof -
  let ?a = "\<lparr>axis1 = 1, axis2 = 1, rows = [[[0::int]], [[0]], [[0]]]\<rparr>"
  let ?i = "\<lparr>iv_chrom = ''chr1'', iv_start = 3, iv_end = 7, iv_strand = ''+''\<rparr>"
  have p: "prepare int64_lib ?a 0 (CInt 0) 7 = Inr (\<lambda>j ci. 7)"
    by (simp add: int64_lib_def int64_prepare_def)
  have run: "array_setitem int64_lib
       \<lparr>stranded = False, condition = [''sample''], resolution = 10, order = 1,
        typecode = ''int'', handle = [''chr1'' \<mapsto> Arr ?a], backing = bk\<rparr>
       (PyTuple [PyInterval ?i, PyInt 0]) 7
     = Inr \<lparr>stranded = False, condition = [''sample''], resolution = 10, order = 1,
        typecode = ''int'', handle = [''chr1'' \<mapsto> Arr ?a], backing = bk\<rparr>"
    if bk: "bk = Dict \<or> bk = H5Write" for bk
  proof -
    let ?st = "\<lparr>stranded = False, condition = [''sample''], resolution = 10, order = 1,
        typecode = ''int'', handle = [''chr1'' \<mapsto> Arr ?a], backing = bk\<rparr>"
    have num: "assigns_as_numpy int64_lib ?st ?i 0 7 ?a"
      using bk int64_h5_as_numpy[of ?st ?i 0 7 ?a] by (auto simp: assigns_as_numpy_def)
    from array_setitem_same_cell [where i = ?i and st = ?st and a = ?a and c = 0
        and lib = int64_lib and v = 7 and el = "\<lambda>j ci. 7", OF _ _ num _ _ _ _ p]
    show ?thesis by (simp add: strand_axis_def)
  qed
  show ?thesis
    using p run[of Dict] run[of H5Write] by simp
qed

text \<open>
  Claim C10 as it is stated fails for a value that the dtype of the array cannot hold: on
  a store of 64-bit integers with a resolution of 10, the two ends of \<open>chr1:3-7\<close> fall
  into one cell, the chromosome is stored and the condition index 0 is valid, and the
  write of \<open>2 ^ 63\<close> raises \<^verbatim>\<open>OverflowError\<close>, although no cell is selected.
\<close>

theorem array_setitem_counterexample:
  "(3::int) div 10 = 7 div 10 \<and>
   array_setitem int64_lib
     \<lparr>stranded = False, condition = [''sample''], resolution = 10, order = 1,
      typecode = ''int'',
      handle = [''chr1'' \<mapsto> Arr \<lparr>axis1 = 1, axis2 = 1, rows = [[[0::int]], [[0]], [[0]]]\<rparr>],
      backing = Dict\<rparr>
     (PyTuple [PyInterval \<lparr>iv_chrom = ''chr1'', iv_start = 3, iv_end = 7, iv_strand = ''+''\<rparr>,
               PyInt 0]) 9223372036854775808
   = Inl OverflowError"
  by (simp add: array_setitem_def ebind_def Let_def ndarray_setitem_def np_index_def
      slice_bound_def int64_lib_def int64_prepare_def)

section \<open>The constructors: allocation\<close>

lemma zeros_ok: "0 \<le> n \<Longrightarrow> zeros n s c = Inr (zarr n s c)"
  by (simp add: zeros_def zarr_def)

lemma shape_zarr: "shape (zarr n s c) = (nat n, s, c)"
  by (simp add: shape_def zarr_def)

lemma np_zeros_ok: "zeros_error e n s c tc = None \<Longrightarrow> 0 \<le> n \<Longrightarrow> np_zeros e n s c tc = Inr (zarr n s c)"
  by (simp add: np_zeros_def zeros_ok)

lemma create_datasets_ok:
  assumes "\<forall>(k, n) \<in> set chroms. - 1 \<le> n \<and> zeros_error e (n + 1) s c tc = None \<and>
             (\<forall>made. create_dataset_error e made k (n + 1) s c tc = None)"
  shows "\<exists>h'. create_datasets e made chroms s c tc h = Inr h' \<and>
     (\<forall>k. k \<notin> fst ` set chroms \<longrightarrow> h' k = h k) \<and>
     (distinct (map fst chroms) \<longrightarrow>
        (\<forall>(k, n) \<in> set chroms. h' k = Some (Arr (zarr (n + 1) s c))))"
  using assms
proof (induction chroms arbitrary: h made)
  case Nil
  then show ?case by simp
next
  case (Cons p chroms)
  obtain k n where p: "p = (k, n)" by (cases p)
  from Cons.prems p have n: "0 \<le> n + 1" and z: "zeros_error e (n + 1) s c tc = None"
    and cd: "create_dataset_error e made k (n + 1) s c tc = None"
    and rest: "\<forall>(k, n) \<in> set chroms. - 1 \<le> n \<and> zeros_error e (n + 1) s c tc = None \<and>
             (\<forall>made. create_dataset_error e made k (n + 1) s c tc = None)"
    by auto
  from Cons.IH[OF rest, of "made @ [k]" "h(k \<mapsto> Arr (zarr (n + 1) s c))"]
  obtain h' where h':
    "create_datasets e (made @ [k]) chroms s c tc (h(k \<mapsto> Arr (zarr (n + 1) s c))) = Inr h'"
    "\<forall>j. j \<notin> fst ` set chroms \<longrightarrow> h' j = (h(k \<mapsto> Arr (zarr (n + 1) s c))) j"
    "distinct (map fst chroms) \<longrightarrow>
       (\<forall>(k, n) \<in> set chroms. h' k = Some (Arr (zarr (n + 1) s c)))"
    by blast
  have "create_datasets e made (p # chroms) s c tc h = Inr h'"
    using h'(1) by (simp add: p np_zeros_ok[OF z n] cd ebind_def)
  moreover have "\<forall>j. j \<notin> fst ` set (p # chroms) \<longrightarrow> h' j = h j"
    using h'(2) by (auto simp: p)
  moreover have "distinct (map fst (p # chroms)) \<longrightarrow>
      (\<forall>(k, n) \<in> set (p # chroms). h' k = Some (Arr (zarr (n + 1) s c)))"
    using h'(2,3) by (auto simp: p)
  ultimately show ?case by blast
qed

lemma zeros_dict_ok:
  assumes "\<forall>(k, n) \<in> set chroms. - 1 \<le> n \<and> zeros_error e (n + 1) s c tc = None"
  shows "\<exists>h'. zeros_dict e chroms s c tc h = Inr h' \<and>
     (\<forall>k. k \<notin> fst ` set chroms \<longrightarrow> h' k = h k) \<and>
     (distinct (map fst chroms) \<longrightarrow>
        (\<forall>(k, n) \<in> set chroms. h' k = Some (Arr (zarr (n + 1) s c))))"
  using assms
proof (induction chroms arbitrary: h)
  case Nil
  then show ?case by simp
next
  case (Cons p chroms)
  obtain k n where p: "p = (k, n)" by (cases p)
  from Cons.prems p have n: "0 \<le> n + 1" and z: "zeros_error e (n + 1) s c tc = None"
    and rest: "\<forall>(k, n) \<in> set chroms. - 1 \<le> n \<and> zeros_error e (n + 1) s c tc = None"
    by auto
  from Cons.IH[OF rest, of "h(k \<mapsto> Arr (zarr (n + 1) s c))"]
  obtain h' where h': "zeros_dict e chroms s c tc (h(k \<mapsto> Arr (zarr (n + 1) s c))) = Inr h'"
    "\<forall>j. j \<notin> fst ` set chroms \<longrightarrow> h' j = (h(k \<mapsto> Arr (zarr (n + 1) s c))) j"
    "distinct (map fst chroms) \<longrightarrow>
       (\<forall>(k, n) \<in> set chroms. h' k = Some (Arr (zarr (n + 1) s c)))"
    by blast
  have "zeros_dict e (p # chroms) s c tc h = Inr h'"
    using h'(1) by (simp add: p np_zeros_ok[OF z n] ebind_def)
  moreover have "\<forall>j. j \<notin> fst ` set (p # chroms) \<longrightarrow> h' j = h j"
    using h'(2) by (auto simp: p)
  moreover have "distinct (map fst (p # chroms)) \<longrightarrow>
      (\<forall>(k, n) \<in> set (p # chroms). h' k = Some (Arr (zarr (n + 1) s c)))"
    using h'(2,3) by (auto simp: p)
  ultimately show ?case by blast
qed

lemma create_datasets_dom:
  "create_datasets e made chroms s c tc h = Inr h' \<Longrightarrow> dom h' = dom h \<union> fst ` set chroms"
proof (induction chroms arbitrary: h made)
  case Nil
  then show ?case by simp
next
  case (Cons p chroms)
  obtain k n where p: "p = (k, n)" by (cases p)
  from Cons.prems obtain z where
    r: "create_datasets e (made @ [k]) chroms s c tc (h(k \<mapsto> Arr z)) = Inr h'"
    by (simp add: p ebind_def split: sum.splits option.splits)
  have "dom h' = dom (h(k \<mapsto> Arr z)) \<union> fst ` set chroms"
    by (rule Cons.IH[OF r])
  then show ?case by (simp add: p)
qed

lemma zeros_dict_dom:
  "zeros_dict e chroms s c tc h = Inr h' \<Longrightarrow> dom h' = dom h \<union> fst ` set chroms"
proof (induction chroms arbitrary: h)
  case Nil
  then show ?case by simp
next
  case (Cons p chroms)
  obtain k n where p: "p = (k, n)" by (cases p)
  from Cons.prems obtain z where
    r: "zeros_dict e chroms s c tc (h(k \<mapsto> Arr z)) = Inr h'"
    by (simp add: p ebind_def split: sum.splits)
  have "dom h' = dom (h(k \<mapsto> Arr z)) \<union> fst ` set chroms"
    by (rule Cons.IH[OF r])
  then show ?case by (simp add: p)
qed

lemma numpy_strings_ok: "\<forall>x \<in> set xs. string_error e x = None \<Longrightarrow> numpy_strings e xs = Inr xs"
  by (induction xs) (simp_all add: ebind_def)

lemma init_ok:
  assumes "0 < a_order a" "a_order a \<le> 4" "0 < a_resolution a"
  shows "GenomicArray_init (a_stranded a) (a_conditions a) (a_typecode a) (a_resolution a)
       (a_order a) =
     Inr \<lparr>stranded = a_stranded a, condition = labels a, resolution = a_resolution a,
          order = a_order a, typecode = a_typecode a, handle = Map.empty, backing = Dict\<rparr>"
  using assms by (simp add: GenomicArray_init_def labels_def)

lemma zarr_facts:
  "zeros (n + 1) s c = Inr arr \<and> shape arr = (nat (n + 1), s, c)"
  if "- 1 \<le> n" "arr = zarr (n + 1) s c"
  using that by (simp add: zeros_ok shape_zarr)

lemma hdf5_after_alloc:
  "(case (case r of (w2, Inl x) \<Rightarrow> (w2, Inl x)
                  | (w2, Inr self2) \<Rightarrow> (hdf5_close w2 path self2, Inr self2)) of
      (w2, Inl x) \<Rightarrow> (w2, Inl x)
    | (w2, Inr self2) \<Rightarrow> (w2, hdf5_reload w2 path self2)) =
   (case r of (w2, Inl x) \<Rightarrow> (w2, Inl x)
            | (w2, Inr self2) \<Rightarrow>
                (hdf5_close w2 path self2, hdf5_reload (hdf5_close w2 path self2) path self2))"
  by (simp split: prod.splits sum.splits)

lemma hdf5_fresh:
  fixes w :: "('v::zero) world" and a :: "('v, 'x) array_args"
  assumes valid: "0 < a_order a" "a_order a \<le> 4" "0 < a_resolution a"
    and dist: "distinct (map fst (a_chroms a))"
    and cache: "a_cache a"
    and fresh: "files w (cache_file e a ''storage.h5'') = None \<or> a_overwrite a"
    and lens: "\<forall>(k, n) \<in> set (a_chroms a). - 1 \<le> n \<and>
        zeros_error e (n + 1) (strands a) (length (labels a)) (a_typecode a) = None \<and>
        (\<forall>made. create_dataset_error e made k (n + 1) (strands a) (length (labels a))
           (a_typecode a) = None)"
    and labs: "\<forall>x \<in> set (labels a). string_error e x = None"
    and attrs: "attrs_error e (labels a) (a_order a) (a_resolution a) = None"
  shows "\<exists>w1 st0.
     HDF5GenomicArray e w a =
       (case call_loader w1 st0 (a_loader a) (a_loader_args a) of
          (w2, Inl x) \<Rightarrow> (w2, Inl x)
        | (w2, Inr self2) \<Rightarrow>
            (hdf5_close w2 (cache_file e a ''storage.h5'') self2,
             hdf5_reload (hdf5_close w2 (cache_file e a ''storage.h5'') self2)
               (cache_file e a ''storage.h5'') self2)) \<and>
     fresh_store a st0 \<and>
     (\<forall>(k, n) \<in> set (a_chroms a).
        handle st0 k = Some (Arr (zarr (n + 1) (strands a) (length (labels a)))))"
proof -
  let ?dir = "output_data_location e (tag_stranded (a_stranded a) (a_datatags a))"
  note fresh' = fresh[unfolded cache_file_def cache_dir_def]
  let ?self = "\<lparr>stranded = a_stranded a, condition = labels a,
     resolution = a_resolution a, order = a_order a, typecode = a_typecode a,
     handle = (Map.empty :: string \<rightharpoonup> 'v entry), backing = Dict\<rparr>"
  let ?path = "path_join ?dir ''storage.h5''"
  let ?w1 = "w\<lparr>dirs := insert ?dir (dirs w)\<rparr>"
  have init: "GenomicArray_init (a_stranded a) (a_conditions a) (a_typecode a)
      (a_resolution a) (a_order a) = Inr ?self"
    by (rule init_ok[OF valid])
  obtain h :: "string \<rightharpoonup> 'v entry"
    where h: "create_datasets e [] (a_chroms a) (strands a) (length (labels a)) (a_typecode a)
        Map.empty = Inr h"
      "\<forall>(k, n) \<in> set (a_chroms a). h k = Some (Arr (zarr (n + 1) (strands a) (length (labels a))))"
    using create_datasets_ok[OF lens, of "[]" Map.empty] dist by blast
  have hd: "dom h = fst ` set (a_chroms a)"
    using create_datasets_dom[OF h(1)] by simp
  let ?f1 = "\<lparr>file_arrays = arrays_of h, file_conditions = Some (labels a),
      file_order = Some (a_order a), file_resolution = Some (a_resolution a)\<rparr>"
  let ?w2 = "?w1\<lparr>files := (files ?w1)(?path \<mapsto> ?f1)\<rparr>"
  let ?st0 = "?self\<lparr>handle := h, backing := H5Write\<rparr>"
  have alloc: "hdf5_alloc e ?w1 ?path ?self a = (?w2, Inr ?st0)"
    using h(1) numpy_strings_ok[OF labs] attrs
    by (simp add: hdf5_alloc_def Let_def strands_def)
  have A: "HDF5GenomicArray e w a =
       (case call_loader ?w2 ?st0 (a_loader a) (a_loader_args a) of
          (w2, Inl x) \<Rightarrow> (w2, Inl x)
        | (w2, Inr self2) \<Rightarrow>
            (hdf5_close w2 ?path self2, hdf5_reload (hdf5_close w2 ?path self2) ?path self2))"
    unfolding HDF5GenomicArray_def init Let_def
    using cache fresh'
    by (simp add: hdf5_build_def alloc hdf5_after_alloc split del: if_split)
  have B: "\<forall>(k, n) \<in> set (a_chroms a).
      handle ?st0 k = Some (Arr (zarr (n + 1) (strands a) (length (labels a))))"
    using h(2) by simp
  have F: "fresh_store a ?st0"
    using hd by (simp add: fresh_store_def)
  show ?thesis
    unfolding cache_file_def cache_dir_def
    by (rule exI[where x = ?w2], rule exI[where x = ?st0], rule conjI[OF A conjI[OF F B]])
qed

lemma np_fresh:
  fixes w :: "('v::zero) world" and a :: "('v, 'x) array_args"
  assumes valid: "0 < a_order a" "a_order a \<le> 4" "0 < a_resolution a"
    and dist: "distinct (map fst (a_chroms a))"
    and fresh: "(a_cache a \<and> files w (cache_file e a ''storage.npz'') = None) \<or> a_overwrite a
        \<or> \<not> a_cache a"
    and lens: "\<forall>(k, n) \<in> set (a_chroms a). - 1 \<le> n \<and>
        zeros_error e (n + 1) (strands a) (length (labels a)) (a_typecode a) = None"
  shows "\<exists>st0.
     NPGenomicArray e w a =
       np_conclude (cache_file e a ''storage.npz'') a
         (np_saved e (cache_file e a ''storage.npz'') a
            (call_loader (if a_cache a then w\<lparr>dirs := insert (cache_dir e a) (dirs w)\<rparr> else w)
               st0 (a_loader a) (a_loader_args a))) \<and>
     fresh_store a st0 \<and>
     (\<forall>(k, n) \<in> set (a_chroms a).
        handle st0 k = Some (Arr (zarr (n + 1) (strands a) (length (labels a)))))"
proof -
  let ?self = "\<lparr>stranded = a_stranded a, condition = labels a,
     resolution = a_resolution a, order = a_order a, typecode = a_typecode a,
     handle = (Map.empty :: string \<rightharpoonup> 'v entry), backing = Dict\<rparr>"
  let ?path = "cache_file e a ''storage.npz''"
  let ?w1 = "if a_cache a then w\<lparr>dirs := insert (cache_dir e a) (dirs w)\<rparr> else w"
  have init: "GenomicArray_init (a_stranded a) (a_conditions a) (a_typecode a)
      (a_resolution a) (a_order a) = Inr ?self"
    by (rule init_ok[OF valid])
  obtain h :: "string \<rightharpoonup> 'v entry"
    where h: "zeros_dict e (a_chroms a) (strands a) (length (labels a)) (a_typecode a)
        Map.empty = Inr h"
      "\<forall>(k, n) \<in> set (a_chroms a). h k = Some (Arr (zarr (n + 1) (strands a) (length (labels a))))"
    using zeros_dict_ok[OF lens, of Map.empty] dist by blast
  have hd: "dom h = fst ` set (a_chroms a)"
    using zeros_dict_dom[OF h(1)] by simp
  let ?st0 = "?self\<lparr>handle := h, backing := Dict\<rparr>"
  have alloc: "np_alloc e ?self a = Inr ?st0"
    using h(1) by (simp add: np_alloc_def ebind_def strands_def)
  have A: "NPGenomicArray e w a =
       np_conclude ?path a (np_saved e ?path a (call_loader ?w1 ?st0 (a_loader a) (a_loader_args a)))"
  proof (cases "a_cache a")
    case True
    with fresh have "files w ?path = None \<or> a_overwrite a" by blast
    then have "files w (path_join (output_data_location e
        (tag_stranded (a_stranded a) (a_datatags a))) ''storage.npz'') = None \<or> a_overwrite a"
      by (simp add: cache_file_def cache_dir_def)
    then show ?thesis
      unfolding NPGenomicArray_def init Let_def cache_file_def cache_dir_def
      using True by (auto simp: np_build_def alloc)
  next
    case False
    then show ?thesis
      unfolding NPGenomicArray_def init Let_def cache_file_def cache_dir_def
      by (simp add: np_build_def alloc)
  qed
  have B: "\<forall>(k, n) \<in> set (a_chroms a).
      handle ?st0 k = Some (Arr (zarr (n + 1) (strands a) (length (labels a))))"
    using h(2) by simp
  have F: "fresh_store a ?st0"
    using hd by (simp add: fresh_store_def)
  show ?thesis
    by (rule exI[where x = ?st0], rule conjI[OF A conjI[OF F B]])
qed

text \<open>
  Claim C3, amended. Let \<^verbatim>\<open>order\<close> and \<^verbatim>\<open>resolution\<close> be valid, the chromosome
  lengths at least \<open>-1\<close>, and let the libraries accept what the allocation gives them:
  numpy the shapes and the type code, and for the HDF5 store h5py the chromosome names and
  the three attributes and numpy the condition labels. Then a constructor that builds (no cache file at the
  location, or \<^verbatim>\<open>overwrite\<close>, or for the in-memory store caching off) allocates, for
  every chromosome, the array of \<^verbatim>\<open>numpy.zeros\<close> of the shape
  \<open>(chrom_length + 1, 2 if stranded else 1, len(conditions))\<close>, whatever the resolution,
  and the store with these arrays, no other entry and the attributes of the constructor
  call is the one the loader is called with: the result of the constructor is what the
  lines after the allocation make of the outcome of that call, for every loader and also
  without one.
\<close>

theorem constructors_allocate_zeros:
  fixes w :: "('v::zero) world" and a :: "('v, 'x) array_args"
  assumes "0 < a_order a" and "a_order a \<le> 4" and "0 < a_resolution a"
    and "distinct (map fst (a_chroms a))"
    and "\<forall>(k, n) \<in> set (a_chroms a). - 1 \<le> n \<and>
           zeros_error env (n + 1) (strands a) (length (labels a)) (a_typecode a) = None"
  shows "(a_cache a \<and>
          (files w (cache_file env a ''storage.h5'') = None \<or> a_overwrite a) \<and>
          (\<forall>(k, n) \<in> set (a_chroms a). \<forall>made.
             create_dataset_error env made k (n + 1) (strands a) (length (labels a))
               (a_typecode a) = None) \<and>
          (\<forall>x \<in> set (labels a). string_error env x = None) \<and>
          attrs_error env (labels a) (a_order a) (a_resolution a) = None \<longrightarrow>
          (\<exists>w1 st0.
             HDF5GenomicArray env w a =
               (case call_loader w1 st0 (a_loader a) (a_loader_args a) of
                  (w2, Inl x) \<Rightarrow> (w2, Inl x)
                | (w2, Inr self2) \<Rightarrow>
                    (hdf5_close w2 (cache_file env a ''storage.h5'') self2,
                     hdf5_reload (hdf5_close w2 (cache_file env a ''storage.h5'') self2)
                       (cache_file env a ''storage.h5'') self2)) \<and>
             fresh_store a st0 \<and>
             (\<forall>(k, n) \<in> set (a_chroms a). \<exists>arr.
                handle st0 k = Some (Arr arr) \<and>
                zeros (n + 1) (strands a) (length (labels a)) = Inr arr \<and>
                shape arr = (nat (n + 1), strands a, length (labels a))))) \<and>
         ((a_cache a \<and> files w (cache_file env a ''storage.npz'') = None) \<or> a_overwrite a
            \<or> \<not> a_cache a \<longrightarrow>
          (\<exists>st0.
             NPGenomicArray env w a =
               np_conclude (cache_file env a ''storage.npz'') a
                 (np_saved env (cache_file env a ''storage.npz'') a
                    (call_loader
                       (if a_cache a then w\<lparr>dirs := insert (cache_dir env a) (dirs w)\<rparr> else w)
                       st0 (a_loader a) (a_loader_args a))) \<and>
             fresh_store a st0 \<and>
             (\<forall>(k, n) \<in> set (a_chroms a). \<exists>arr.
                handle st0 k = Some (Arr arr) \<and>
                zeros (n + 1) (strands a) (length (labels a)) = Inr arr \<and>
                shape arr = (nat (n + 1), strands a, length (labels a)))))"
proof -
  let ?S = "strands a"
  let ?C = "length (labels a)"
  have z: "\<exists>arr. h k = Some (Arr arr) \<and> zeros (n + 1) ?S ?C = Inr arr \<and>
        shape arr = (nat (n + 1), ?S, ?C)"
    if "(k, n) \<in> set (a_chroms a)" "h k = Some (Arr (zarr (n + 1) ?S ?C))"
    for h :: "string \<rightharpoonup> 'v entry" and k n
  proof -
    have "- 1 \<le> n" using that(1) assms(5) by auto
    from zarr_facts[OF this refl, of ?S ?C] that(2) show ?thesis by blast
  qed
  show ?thesis
  proof (intro conjI impI)
    assume h5: "a_cache a \<and>
          (files w (cache_file env a ''storage.h5'') = None \<or> a_overwrite a) \<and>
          (\<forall>(k, n) \<in> set (a_chroms a). \<forall>made.
             create_dataset_error env made k (n + 1) (strands a) (length (labels a))
               (a_typecode a) = None) \<and>
          (\<forall>x \<in> set (labels a). string_error env x = None) \<and>
          attrs_error env (labels a) (a_order a) (a_resolution a) = None"
    have lens: "\<forall>(k, n) \<in> set (a_chroms a). - 1 \<le> n \<and>
        zeros_error env (n + 1) (strands a) (length (labels a)) (a_typecode a) = None \<and>
        (\<forall>made. create_dataset_error env made k (n + 1) (strands a) (length (labels a))
           (a_typecode a) = None)"
      using assms(5) h5 by auto
    from h5 have c: "a_cache a"
      and f: "files w (cache_file env a ''storage.h5'') = None \<or> a_overwrite a"
      and l: "\<forall>x \<in> set (labels a). string_error env x = None"
      and at: "attrs_error env (labels a) (a_order a) (a_resolution a) = None"
      by blast+
    from hdf5_fresh[OF assms(1,2,3,4) c f lens l at]
    obtain w1 st0 where r: "HDF5GenomicArray env w a =
       (case call_loader w1 st0 (a_loader a) (a_loader_args a) of
          (w2, Inl x) \<Rightarrow> (w2, Inl x)
        | (w2, Inr self2) \<Rightarrow>
            (hdf5_close w2 (cache_file env a ''storage.h5'') self2,
             hdf5_reload (hdf5_close w2 (cache_file env a ''storage.h5'') self2)
               (cache_file env a ''storage.h5'') self2))"
      and fs: "fresh_store a st0"
      and hs: "\<forall>(k, n) \<in> set (a_chroms a). handle st0 k = Some (Arr (zarr (n + 1) ?S ?C))"
      by blast
    have "\<forall>(k, n) \<in> set (a_chroms a). \<exists>arr.
                handle st0 k = Some (Arr arr) \<and> zeros (n + 1) ?S ?C = Inr arr \<and>
                shape arr = (nat (n + 1), ?S, ?C)"
      using hs z[of _ _ "handle st0"] by blast
    with r fs show "\<exists>w1 st0.
             HDF5GenomicArray env w a =
               (case call_loader w1 st0 (a_loader a) (a_loader_args a) of
                  (w2, Inl x) \<Rightarrow> (w2, Inl x)
                | (w2, Inr self2) \<Rightarrow>
                    (hdf5_close w2 (cache_file env a ''storage.h5'') self2,
                     hdf5_reload (hdf5_close w2 (cache_file env a ''storage.h5'') self2)
                       (cache_file env a ''storage.h5'') self2)) \<and>
             fresh_store a st0 \<and>
             (\<forall>(k, n) \<in> set (a_chroms a). \<exists>arr.
                handle st0 k = Some (Arr arr) \<and>
                zeros (n + 1) (strands a) (length (labels a)) = Inr arr \<and>
                shape arr = (nat (n + 1), strands a, length (labels a)))"
      by blast
  next
    assume f: "(a_cache a \<and> files w (cache_file env a ''storage.npz'') = None) \<or> a_overwrite a
            \<or> \<not> a_cache a"
    from np_fresh[OF assms(1,2,3,4) f assms(5)]
    obtain st0 where r: "NPGenomicArray env w a =
       np_conclude (cache_file env a ''storage.npz'') a
         (np_saved env (cache_file env a ''storage.npz'') a
            (call_loader (if a_cache a then w\<lparr>dirs := insert (cache_dir env a) (dirs w)\<rparr> else w)
               st0 (a_loader a) (a_loader_args a)))"
      and fs: "fresh_store a st0"
      and hs: "\<forall>(k, n) \<in> set (a_chroms a). handle st0 k = Some (Arr (zarr (n + 1) ?S ?C))"
      by blast
    have "\<forall>(k, n) \<in> set (a_chroms a). \<exists>arr.
                handle st0 k = Some (Arr arr) \<and> zeros (n + 1) ?S ?C = Inr arr \<and>
                shape arr = (nat (n + 1), ?S, ?C)"
      using hs z[of _ _ "handle st0"] by blast
    with r fs show "\<exists>st0.
             NPGenomicArray env w a =
               np_conclude (cache_file env a ''storage.npz'') a
                 (np_saved env (cache_file env a ''storage.npz'') a
                    (call_loader
                       (if a_cache a then w\<lparr>dirs := insert (cache_dir env a) (dirs w)\<rparr> else w)
                       st0 (a_loader a) (a_loader_args a))) \<and>
             fresh_store a st0 \<and>
             (\<forall>(k, n) \<in> set (a_chroms a). \<exists>arr.
                handle st0 k = Some (Arr arr) \<and>
                zeros (n + 1) (strands a) (length (labels a)) = Inr arr \<and>
                shape arr = (nat (n + 1), strands a, length (labels a)))"
      by blast
  qed
qed

text \<open>
  The theorem at one chromosome of length 10, one condition, no strands and a resolution
  of 5, with an empty cache and a loader that returns the store as it gets it: in both
  constructors the loader is called with a store that holds 11 cells of zeros.
\<close>

theorem constructors_allocate_zeros_witness:
  "(\<exists>w1 st0.
      HDF5GenomicArray accepting_env \<lparr>dirs = {}, files = Map.empty, loader_calls = 0\<rparr>
        \<lparr>a_chroms = [(''chr1'', 10)], a_stranded = False, a_conditions = None,
         a_typecode = ''d'', a_datatags = None, a_resolution = 5, a_order = 1, a_cache = True,
         a_overwrite = False, a_loader = Some (\<lambda>st x. Inr st), a_loader_args = Some ()\<rparr>
      = (case call_loader w1 st0 (Some (\<lambda>st x. Inr st)) (Some ()) of
           (w2, Inl x) \<Rightarrow> (w2, Inl x)
         | (w2, Inr self2) \<Rightarrow>
             (hdf5_close w2 ''cache/storage.h5'' self2,
              hdf5_reload (hdf5_close w2 ''cache/storage.h5'' self2) ''cache/storage.h5'' self2)) \<and>
      resolution st0 = 5 \<and>
      handle st0 ''chr1''
        = Some (Arr \<lparr>axis1 = 1, axis2 = 1, rows = replicate 11 [[0::int]]\<rparr>)) \<and>
   (\<exists>st0.
      NPGenomicArray accepting_env \<lparr>dirs = {}, files = Map.empty, loader_calls = 0\<rparr>
        \<lparr>a_chroms = [(''chr1'', 10)], a_stranded = False, a_conditions = None,
         a_typecode = ''d'', a_datatags = None, a_resolution = 5, a_order = 1, a_cache = True,
         a_overwrite = False, a_loader = Some (\<lambda>st x. Inr st), a_loader_args = Some ()\<rparr>
      = np_conclude ''cache/storage.npz''
          \<lparr>a_chroms = [(''chr1'', 10)], a_stranded = False, a_conditions = None,
           a_typecode = ''d'', a_datatags = None, a_resolution = 5, a_order = 1, a_cache = True,
           a_overwrite = False, a_loader = Some (\<lambda>st x. Inr st), a_loader_args = Some ()\<rparr>
          (np_saved accepting_env ''cache/storage.npz''
             \<lparr>a_chroms = [(''chr1'', 10)], a_stranded = False, a_conditions = None,
              a_typecode = ''d'', a_datatags = None, a_resolution = 5, a_order = 1,
              a_cache = True, a_overwrite = False, a_loader = Some (\<lambda>st x. Inr st),
              a_loader_args = Some ()\<rparr>
             (call_loader \<lparr>dirs = {''cache''}, files = Map.empty, loader_calls = 0\<rparr> st0
                (Some (\<lambda>st x. Inr st)) (Some ()))) \<and>
      resolution st0 = 5 \<and>
      handle st0 ''chr1''
        = Some (Arr \<lparr>axis1 = 1, axis2 = 1, rows = replicate 11 [[0::int]]\<rparr>))"
proof -
  let ?w = "\<lparr>dirs = {}, files = Map.empty, loader_calls = 0\<rparr> :: int world"
  let ?a = "\<lparr>a_chroms = [(''chr1'', 10)], a_stranded = False, a_conditions = None,
         a_typecode = ''d'', a_datatags = None, a_resolution = 5, a_order = 1, a_cache = True,
         a_overwrite = False, a_loader = Some (\<lambda>st x. Inr st), a_loader_args = Some ()\<rparr>
      :: (int, unit) array_args"
  have p: "cache_file accepting_env ?a ''storage.h5'' = ''cache/storage.h5''"
    "cache_file accepting_env ?a ''storage.npz'' = ''cache/storage.npz''"
    "cache_dir accepting_env ?a = ''cache''"
    by (simp_all add: cache_file_def cache_dir_def accepting_env_def path_join_def)
  have s: "strands ?a = 1" "labels ?a = [''sample'']"
    by (simp_all add: strands_def labels_def)
  have e: "zeros_error accepting_env n s c tc = None"
    "create_dataset_error accepting_env made k n s c tc = None"
    "string_error accepting_env x = None"
    "attrs_error accepting_env cs ord res = None" for n s c tc k x made cs ord res
    by (simp_all add: accepting_env_def)
  have z: "zeros 11 s c = Inr arr \<longleftrightarrow>
      arr = \<lparr>axis1 = s, axis2 = c, rows = replicate 11 (replicate s (replicate c (0::int)))\<rparr>"
    for arr s c
    by (auto simp: zeros_def)
  from constructors_allocate_zeros[of ?a accepting_env ?w]
  have "(\<exists>w1 st0.
      HDF5GenomicArray accepting_env ?w ?a
      = (case call_loader w1 st0 (Some (\<lambda>st x. Inr st)) (Some ()) of
           (w2, Inl x) \<Rightarrow> (w2, Inl x)
         | (w2, Inr self2) \<Rightarrow>
             (hdf5_close w2 ''cache/storage.h5'' self2,
              hdf5_reload (hdf5_close w2 ''cache/storage.h5'' self2) ''cache/storage.h5'' self2)) \<and>
      fresh_store ?a st0 \<and>
      handle st0 ''chr1''
        = Some (Arr \<lparr>axis1 = 1, axis2 = 1, rows = replicate 11 [[0::int]]\<rparr>)) \<and>
   (\<exists>st0.
      NPGenomicArray accepting_env ?w ?a
      = np_conclude ''cache/storage.npz'' ?a
          (np_saved accepting_env ''cache/storage.npz'' ?a
             (call_loader \<lparr>dirs = {''cache''}, files = Map.empty, loader_calls = 0\<rparr> st0
                (Some (\<lambda>st x. Inr st)) (Some ()))) \<and>
      fresh_store ?a st0 \<and>
      handle st0 ''chr1''
        = Some (Arr \<lparr>axis1 = 1, axis2 = 1, rows = replicate 11 [[0::int]]\<rparr>))"
    by (simp add: p s e z shape_def)
  moreover have "resolution st = 5" if "fresh_store ?a st" for st :: "int GenomicArray"
    using that by (simp add: fresh_store_def)
  ultimately show ?thesis by blast
qed

text \<open>
  Claim C3 as it is stated fails when the resolution is not 1: for a chromosome of length
  10 and a resolution of 5 the claim gives \<open>ceil(10 / 5) + 1 = 3\<close> rows, and both stores
  allocate 11.
\<close>

theorem constructors_allocate_counterexample:
  "result_shape
     (HDF5GenomicArray accepting_env \<lparr>dirs = {}, files = Map.empty, loader_calls = 0\<rparr>
        \<lparr>a_chroms = [(''chr1'', 10)], a_stranded = False, a_conditions = None,
         a_typecode = ''d'', a_datatags = None, a_resolution = 5, a_order = 1, a_cache = True,
         a_overwrite = False, a_loader = None, a_loader_args = (None :: unit option)\<rparr>
      :: int world \<times> (error + int GenomicArray)) ''chr1'' = Some (11, 1, 1) \<and>
   result_shape
     (NPGenomicArray accepting_env \<lparr>dirs = {}, files = Map.empty, loader_calls = 0\<rparr>
        \<lparr>a_chroms = [(''chr1'', 10)], a_stranded = False, a_conditions = None,
         a_typecode = ''d'', a_datatags = None, a_resolution = 5, a_order = 1, a_cache = True,
         a_overwrite = False, a_loader = None, a_loader_args = (None :: unit option)\<rparr>
      :: int world \<times> (error + int GenomicArray)) ''chr1'' = Some (11, 1, 1) \<and>
   spec_rows 10 5 = 3"
  by (simp add: result_shape_def HDF5GenomicArray_def NPGenomicArray_def GenomicArray_init_def
      Let_def hdf5_build_def hdf5_alloc_def hdf5_close_def hdf5_reload_def np_build_def
      np_alloc_def np_saved_def np_save_def np_conclude_def np_reload_def np_finish_def
      call_loader_def np_zeros_def zeros_def ebind_def handle_of_def arrays_of_def shape_def
      tag_stranded_def path_join_def reserved_def spec_rows_def accepting_env_def)

section \<open>The constructors: what the libraries refuse\<close>

text \<open>
  An exception of a library leaves the constructor: of \<^verbatim>\<open>numpy.zeros\<close> and of
  \<^verbatim>\<open>create_dataset\<close> at the first chromosome they refuse, of \<^verbatim>\<open>numpy.string_\<close> at
  the first label it refuses.
\<close>

lemma np_zeros_refused:
  "zeros_error e n s c tc = Some x \<Longrightarrow> np_zeros e n s c tc = Inl x"
  by (simp add: np_zeros_def)

lemma create_datasets_refused:
  assumes "- 1 \<le> n" and "zeros_error e (n + 1) s c tc = None"
    and "create_dataset_error e made k (n + 1) s c tc = Some x"
  shows "create_datasets e made ((k, n) # rest) s c tc h = Inl x"
  using assms by (simp add: np_zeros_def zeros_def ebind_def)

lemma numpy_strings_refused:
  "string_error e x = Some err \<Longrightarrow> numpy_strings e (x # xs) = Inl err"
  by simp

text \<open>
  With a numpy whose \<^verbatim>\<open>savez\<close> refuses the key \<^verbatim>\<open>file\<close>, the in-memory store of a
  chromosome of that name raises \<^verbatim>\<open>TypeError\<close> when it caches.
\<close>

lemma savez_key_file:
  "snd (NPGenomicArray
     (accepting_env\<lparr>savez_error :=
        (\<lambda>names. if ''file'' \<in> names then Some TypeError else None)\<rparr>)
     \<lparr>dirs = {}, files = Map.empty, loader_calls = 0\<rparr>
     \<lparr>a_chroms = [(''file'', 1)], a_stranded = False, a_conditions = None,
      a_typecode = ''d'', a_datatags = None, a_resolution = 1, a_order = 1, a_cache = True,
      a_overwrite = False, a_loader = None, a_loader_args = (None :: unit option)\<rparr>
     :: int world \<times> (error + int GenomicArray)) = Inl TypeError"
  by (simp add: NPGenomicArray_def GenomicArray_init_def Let_def np_build_def
      np_alloc_def np_saved_def np_save_def np_conclude_def
      call_loader_def np_zeros_def zeros_def ebind_def
      tag_stranded_def path_join_def accepting_env_def)

text \<open>
  With a numpy whose \<^verbatim>\<open>string_\<close> refuses a label with a byte outside ASCII, both
  constructors raise \<^verbatim>\<open>UnicodeEncodeError\<close> on a label that ends with the two bytes of
  an accented letter.
\<close>

lemma label_outside_ascii:
  "snd (HDF5GenomicArray
     (accepting_env\<lparr>string_error :=
        (\<lambda>x. if list_all (\<lambda>c. of_char c < (128::nat)) x then None
              else Some UnicodeEncodeError)\<rparr>)
     \<lparr>dirs = {}, files = Map.empty, loader_calls = 0\<rparr>
     \<lparr>a_chroms = [(''chr1'', 1)], a_stranded = False,
      a_conditions = Some [[CHR ''c'', CHR ''a'', CHR ''f'', CHR 0xC3, CHR 0xA9]],
      a_typecode = ''d'', a_datatags = None, a_resolution = 1, a_order = 1, a_cache = True,
      a_overwrite = False, a_loader = None, a_loader_args = (None :: unit option)\<rparr>
     :: int world \<times> (error + int GenomicArray)) = Inl UnicodeEncodeError \<and>
   snd (NPGenomicArray
     (accepting_env\<lparr>string_error :=
        (\<lambda>x. if list_all (\<lambda>c. of_char c < (128::nat)) x then None
              else Some UnicodeEncodeError)\<rparr>)
     \<lparr>dirs = {}, files = Map.empty, loader_calls = 0\<rparr>
     \<lparr>a_chroms = [(''chr1'', 1)], a_stranded = False,
      a_conditions = Some [[CHR ''c'', CHR ''a'', CHR ''f'', CHR 0xC3, CHR 0xA9]],
      a_typecode = ''d'', a_datatags = None, a_resolution = 1, a_order = 1, a_cache = False,
      a_overwrite = False, a_loader = None, a_loader_args = (None :: unit option)\<rparr>
     :: int world \<times> (error + int GenomicArray)) = Inl UnicodeEncodeError"
  by (simp add: HDF5GenomicArray_def NPGenomicArray_def GenomicArray_init_def Let_def
      hdf5_build_def hdf5_alloc_def np_build_def np_alloc_def np_saved_def np_save_def
      np_conclude_def call_loader_def np_zeros_def zeros_def
      ebind_def tag_stranded_def path_join_def accepting_env_def)

section \<open>The constructors: the handle they leave\<close>

text \<open>
  The store of \<^verbatim>\<open>HDF5GenomicArray\<close> has its file opened for reading; the store of
  \<^verbatim>\<open>NPGenomicArray\<close> has a dictionary.
\<close>

lemma hdf5_result_sealed:
  assumes "HDF5GenomicArray env w a = (w', Inr st)"
  shows "backing st = H5Read"
  using assms
  by (auto simp: HDF5GenomicArray_def Let_def hdf5_reload_def
      split: sum.splits if_splits prod.splits option.splits)

lemma np_result_dict:
  assumes "NPGenomicArray env w a = (w', Inr st)"
  shows "backing st = Dict"
  using assms
  by (auto simp: NPGenomicArray_def Let_def np_conclude_def np_finish_def ebind_def
      split: sum.splits if_splits prod.splits option.splits)

text \<open>
  With an h5py that raises \<^verbatim>\<open>OSError\<close> on a file opened for reading, a write to the
  store that \<^verbatim>\<open>HDF5GenomicArray\<close> returns raises that error.
\<close>

lemma sealed_store_refuses:
  "\<exists>w' st.
     HDF5GenomicArray accepting_env \<lparr>dirs = {}, files = Map.empty, loader_calls = 0\<rparr>
        \<lparr>a_chroms = [(''chr1'', 2)], a_stranded = False, a_conditions = None,
         a_typecode = ''int'', a_datatags = None, a_resolution = 1, a_order = 1, a_cache = True,
         a_overwrite = False, a_loader = None, a_loader_args = (None :: unit option)\<rparr>
       = (w', Inr st) \<and>
     backing st = H5Read \<and>
     array_setitem int64_lib st
       (PyTuple [PyInterval \<lparr>iv_chrom = ''chr1'', iv_start = 0, iv_end = 2, iv_strand = ''+''\<rparr>,
                 PyInt 0]) 7 = Inl OSError"
  by (simp add: HDF5GenomicArray_def GenomicArray_init_def Let_def hdf5_build_def
        hdf5_alloc_def hdf5_close_def hdf5_reload_def call_loader_def np_zeros_def zeros_def
        ebind_def tag_stranded_def path_join_def accepting_env_def
        array_setitem_def int64_lib_def handle_of_def arrays_of_def)

section \<open>The constructors: reuse of the cache\<close>

lemma hdf5_reload_ok:
  assumes "files w path = Some f" "file_conditions f = Some cs" "file_order f = Some ord"
    "file_resolution f = Some res" "0 < ord" "0 < res"
  shows "hdf5_reload w path self =
     Inr (self\<lparr>handle := handle_of (file_arrays f), backing := H5Read, condition := cs,
              order := ord, resolution := res\<rparr>)"
  using assms by (simp add: hdf5_reload_def)

lemma hdf5_reload_fields:
  assumes "hdf5_reload w path self = Inr st"
  shows "\<exists>f. files w path = Some f \<and> file_conditions f = Some (condition st) \<and>
     file_order f = Some (order st) \<and> file_resolution f = Some (resolution st) \<and>
     0 < order st \<and> 0 < resolution st"
  using assms by (auto simp: hdf5_reload_def split: option.splits if_splits)

lemma hdf5_reload_dirs: "hdf5_reload (w\<lparr>dirs := d\<rparr>) path self = hdf5_reload w path self"
  by (simp add: hdf5_reload_def)

lemma hdf5_first:
  assumes "HDF5GenomicArray env w0 a = (w1, Inr st1)"
  shows "\<exists>self2. hdf5_reload w1 (cache_file env a ''storage.h5'') self2 = Inr st1"
  using assms
  by (auto simp: HDF5GenomicArray_def Let_def cache_file_def cache_dir_def
      split: sum.splits if_splits prod.splits)

lemma hdf5_cached:
  assumes "files w (cache_file env a ''storage.h5'') \<noteq> None"
    and "\<not> a_overwrite a"
  shows "HDF5GenomicArray env w a =
     (case GenomicArray_init (a_stranded a) (a_conditions a) (a_typecode a)
            (a_resolution a) (a_order a) of
        Inl e \<Rightarrow> (w, Inl e)
      | Inr self \<Rightarrow>
          if \<not> a_cache a then (w, Inl ValueError)
          else (w\<lparr>dirs := insert (cache_dir env a) (dirs w)\<rparr>,
                hdf5_reload w (cache_file env a ''storage.h5'') self))"
  using assms
  by (auto simp: HDF5GenomicArray_def Let_def hdf5_reload_dirs cache_file_def cache_dir_def
      split: sum.splits)

text \<open>
  Claim C6. Let a first construction of the HDF5 store have returned a store. A second
  construction with the same strandedness and tags and without \<^verbatim>\<open>overwrite\<close>, whatever
  its other arguments and its loader, calls no loader and leaves the files as they are;
  when it returns a store, the conditions, the order and the resolution of that store are
  those of the first store; and it does return a store when its own arguments pass the
  checks of the constructor.
\<close>

theorem hdf5_reuse_cache:
  assumes "HDF5GenomicArray env w0 a = (w1, Inr st1)"
    and "a_stranded a' = a_stranded a" and "a_datatags a' = a_datatags a"
    and "\<not> a_overwrite a'"
  shows "loader_calls (fst (HDF5GenomicArray env w1 a')) = loader_calls w1 \<and>
     files (fst (HDF5GenomicArray env w1 a')) = files w1 \<and>
     (\<forall>st2. snd (HDF5GenomicArray env w1 a') = Inr st2 \<longrightarrow>
        condition st2 = condition st1 \<and> order st2 = order st1 \<and>
        resolution st2 = resolution st1) \<and>
     (a_cache a' \<and> 0 < a_order a' \<and> a_order a' \<le> 4 \<and> 0 < a_resolution a' \<longrightarrow>
        (\<exists>st2. snd (HDF5GenomicArray env w1 a') = Inr st2))"
proof -
  let ?path = "cache_file env a ''storage.h5''"
  have same: "cache_file env a' ''storage.h5'' = ?path" "cache_dir env a' = cache_dir env a"
    using assms(2,3) by (simp_all add: cache_file_def cache_dir_def)
  from hdf5_first[OF assms(1)] obtain self2 where r1: "hdf5_reload w1 ?path self2 = Inr st1"
    by blast
  from hdf5_reload_fields[OF r1] obtain f where f: "files w1 ?path = Some f"
    "file_conditions f = Some (condition st1)" "file_order f = Some (order st1)"
    "file_resolution f = Some (resolution st1)" "0 < order st1" "0 < resolution st1"
    by blast
  have ex: "files w1 (cache_file env a' ''storage.h5'') \<noteq> None"
    using f(1) same by simp
  note unf = hdf5_cached[of w1 env a', OF ex assms(4), unfolded same]
  have rl: "hdf5_reload w1 ?path self = Inr (self\<lparr>handle := handle_of (file_arrays f),
      backing := H5Read, condition := condition st1, order := order st1,
      resolution := resolution st1\<rparr>)" for self
    by (rule hdf5_reload_ok[OF f])
  show ?thesis
    unfolding unf
    by (auto simp: rl GenomicArray_init_def split: sum.splits)
qed

text \<open>
  The theorem at a first construction with the conditions \<open>a\<close> and \<open>b\<close>, the order 2 and
  the resolution 5, which calls its loader once, and a second one at the same location that
  asks for one condition, the order 1 and the resolution 1: the second calls no loader and
  its store has the metadata of the first.
\<close>

theorem hdf5_reuse_cache_witness:
  "\<exists>w1 st1.
     HDF5GenomicArray accepting_env \<lparr>dirs = {}, files = Map.empty, loader_calls = 0\<rparr>
        \<lparr>a_chroms = [(''chr1'', 3)], a_stranded = False, a_conditions = Some [''a'', ''b''],
         a_typecode = ''d'', a_datatags = None, a_resolution = 5, a_order = 2, a_cache = True,
         a_overwrite = False, a_loader = Some (\<lambda>st x. Inr st), a_loader_args = Some ()\<rparr>
       = (w1, Inr (st1 :: int GenomicArray)) \<and>
     loader_calls w1 = 1 \<and>
     loader_calls (fst (HDF5GenomicArray accepting_env w1
        \<lparr>a_chroms = [(''chr1'', 3)], a_stranded = False, a_conditions = None,
         a_typecode = ''d'', a_datatags = None, a_resolution = 1, a_order = 1, a_cache = True,
         a_overwrite = False, a_loader = Some (\<lambda>st x. Inr st), a_loader_args = Some ()\<rparr>)) = 1 \<and>
     (\<exists>st2. snd (HDF5GenomicArray accepting_env w1
        \<lparr>a_chroms = [(''chr1'', 3)], a_stranded = False, a_conditions = None,
         a_typecode = ''d'', a_datatags = None, a_resolution = 1, a_order = 1, a_cache = True,
         a_overwrite = False, a_loader = Some (\<lambda>st x. Inr st), a_loader_args = Some ()\<rparr>)
           = Inr st2 \<and>
        condition st2 = [''a'', ''b''] \<and> order st2 = 2 \<and> resolution st2 = 5)"
proof -
  let ?w0 = "\<lparr>dirs = {}, files = Map.empty, loader_calls = 0\<rparr> :: int world"
  let ?a = "\<lparr>a_chroms = [(''chr1'', 3)], a_stranded = False, a_conditions = Some [''a'', ''b''],
         a_typecode = ''d'', a_datatags = None, a_resolution = 5, a_order = 2, a_cache = True,
         a_overwrite = False, a_loader = Some (\<lambda>st x. Inr st), a_loader_args = Some ()\<rparr>
       :: (int, unit) array_args"
  let ?a' = "\<lparr>a_chroms = [(''chr1'', 3)], a_stranded = False, a_conditions = None,
         a_typecode = ''d'', a_datatags = None, a_resolution = 1, a_order = 1, a_cache = True,
         a_overwrite = False, a_loader = Some (\<lambda>st x. Inr st), a_loader_args = Some ()\<rparr>
       :: (int, unit) array_args"
  have "\<exists>w1 st1. HDF5GenomicArray accepting_env ?w0 ?a = (w1, Inr st1) \<and>
      loader_calls w1 = 1 \<and> condition st1 = [''a'', ''b''] \<and> order st1 = 2 \<and>
      resolution st1 = 5"
    by (simp add: HDF5GenomicArray_def GenomicArray_init_def Let_def hdf5_build_def
        hdf5_alloc_def hdf5_close_def hdf5_reload_def call_loader_def np_zeros_def zeros_def
        ebind_def tag_stranded_def path_join_def accepting_env_def)
  then obtain w1 st1 where first: "HDF5GenomicArray accepting_env ?w0 ?a = (w1, Inr st1)"
    and v: "loader_calls w1 = 1" "condition st1 = [''a'', ''b'']" "order st1 = 2"
      "resolution st1 = 5"
    by blast
  from hdf5_reuse_cache[OF first, of ?a'] v
  have "loader_calls (fst (HDF5GenomicArray accepting_env w1 ?a')) = 1"
    and "\<exists>st2. snd (HDF5GenomicArray accepting_env w1 ?a') = Inr st2 \<and>
        condition st2 = [''a'', ''b''] \<and> order st2 = 2 \<and> resolution st2 = 5"
    by auto
  with first v(1) show ?thesis by blast
qed

section \<open>The factory\<close>

text \<open>
  Claim C9. With a storage kind other than \<^verbatim>\<open>'hdf5'\<close> and \<^verbatim>\<open>'ndarray'\<close> the factory
  raises \<^verbatim>\<open>Exception\<close> and leaves the world as it was, no store built and no file
  touched; with \<^verbatim>\<open>'hdf5'\<close> it is the constructor of the HDF5 store, and with
  \<^verbatim>\<open>'ndarray'\<close> the constructor of the in-memory store, on all its arguments unchanged.
\<close>

theorem factory_dispatch:
  "(storage \<noteq> ''hdf5'' \<and> storage \<noteq> ''ndarray'' \<longrightarrow>
       create_genomic_array env w storage a = (w, Inl PyException)) \<and>
   create_genomic_array env w ''hdf5'' a = HDF5GenomicArray env w a \<and>
   create_genomic_array env w ''ndarray'' a = NPGenomicArray env w a"
  by (simp add: create_genomic_array_def)

text \<open>The theorem at the storage kind \<^verbatim>\<open>'memmap'\<close>, which the docstring still names.\<close>

theorem factory_dispatch_witness:
  "''memmap'' \<noteq> ''hdf5'' \<and> ''memmap'' \<noteq> ''ndarray'' \<and>
   create_genomic_array accepting_env
     (\<lparr>dirs = {}, files = Map.empty, loader_calls = 0\<rparr> :: int world) ''memmap''
     \<lparr>a_chroms = [(''chr1'', 3)], a_stranded = False, a_conditions = None,
      a_typecode = ''d'', a_datatags = None, a_resolution = 1, a_order = 1, a_cache = True,
      a_overwrite = False, a_loader = None, a_loader_args = (None :: unit option)\<rparr>
   = (\<lparr>dirs = {}, files = Map.empty, loader_calls = 0\<rparr>, Inl PyException)"
  using factory_dispatch [of "''memmap''" accepting_env
      "\<lparr>dirs = {}, files = Map.empty, loader_calls = 0\<rparr> :: int world"
      "\<lparr>a_chroms = [(''chr1'', 3)], a_stranded = False, a_conditions = None,
        a_typecode = ''d'', a_datatags = None, a_resolution = 1, a_order = 1, a_cache = True,
        a_overwrite = False, a_loader = None, a_loader_args = (None :: unit option)\<rparr>"]
  by simp

end
